theory Spec2Isabelle
  imports Complex_Main
begin

section \<open>Geometry kernel (converter/svg/geometry.ts)\<close>

text \<open>
  JavaScript numbers are IEEE binary64 doubles.  They are modelled as the real numbers
  they denote; NaN and the infinities are outside the model.  The loop that computes the
  shoelace sum cancels large summands against each other and reports the sign of what is
  left, so there the rounding of every floating-point operation is part of the model:
  the functions of the loop take the rounding \<open>rnd\<close> of the runtime, the map from the
  exact result of an operation to the double that is stored, and apply it after each
  subtraction, addition, multiplication and division, in the order of the code.
  Everywhere else an operation is taken with its exact result.
  A \<open>Point\<close> is the pair \<open>[x, y]\<close>.
\<close>

type_synonym Point = "real \<times> real"

record BoundingBox =
  minX :: real
  minY :: real
  maxX :: real
  maxY :: real

datatype WindingDirection = Clockwise | CounterClockwise

record WindingOrder =
  direction :: WindingDirection
  signedArea :: real

text \<open>\<open>points[index] ?? [0, 0]\<close>: an index outside the array reads \<open>undefined\<close>.\<close>

definition pointAt :: "Point list \<Rightarrow> nat \<Rightarrow> Point" where
  "pointAt points index = (if index < length points then points ! index else (0, 0))"

type_synonym Rounding = "real \<Rightarrow> real"

text \<open>
  One pass of the loop body shared by \<open>getWindingOrder\<close> and \<open>getPolygonArea\<close>: the
  summand \<open>(x2 - x1) * (y2 + y1)\<close>, each of its three operations rounded.
\<close>

definition edgeTerm :: "Rounding \<Rightarrow> Point list \<Rightarrow> nat \<Rightarrow> real" where
  "edgeTerm rnd points index =
     (case pointAt points index of (x1, y1) \<Rightarrow>
      case pointAt points ((index + 1) mod length points) of (x2, y2) \<Rightarrow>
        rnd (rnd (x2 - x1) * rnd (y2 + y1)))"

text \<open>The loop \<open>sum += ...\<close> over the indices in ascending order, from \<open>sum = 0\<close>.\<close>

definition shoelaceSum :: "Rounding \<Rightarrow> Point list \<Rightarrow> real" where
  "shoelaceSum rnd points =
     foldl (\<lambda>sum index. rnd (sum + edgeTerm rnd points index)) 0 [0..<length points]"

definition getWindingOrder :: "Rounding \<Rightarrow> Point list \<Rightarrow> WindingOrder" where
  "getWindingOrder rnd points =
     (let sum = shoelaceSum rnd points in
      \<lparr> direction = (if sum > 0 then Clockwise else CounterClockwise), signedArea = sum \<rparr>)"

definition getPolygonArea :: "Rounding \<Rightarrow> Point list \<Rightarrow> real" where
  "getPolygonArea rnd points = \<bar>rnd (shoelaceSum rnd points / 2)\<bar>"

text \<open>
  The min/max loops start from \<open>+Infinity\<close> and \<open>-Infinity\<close>; on a non-empty array the
  result is the minimum and maximum of the coordinates, which is what the folds compute.
\<close>

definition minOver :: "real list \<Rightarrow> real" where
  "minOver vs = foldl min (hd vs) (tl vs)"

definition maxOver :: "real list \<Rightarrow> real" where
  "maxOver vs = foldl max (hd vs) (tl vs)"

definition dimensionsFromPoints :: "Point list \<Rightarrow> Point" where
  "dimensionsFromPoints points =
     (if length points = 0 then (0, 0)
      else (maxOver (map fst points) - minOver (map fst points),
            maxOver (map snd points) - minOver (map snd points)))"

definition getBoundingBox :: "Point list \<Rightarrow> BoundingBox" where
  "getBoundingBox points =
     (if length points = 0 then \<lparr> minX = 0, minY = 0, maxX = 0, maxY = 0 \<rparr>
      else \<lparr> minX = minOver (map fst points), minY = minOver (map snd points),
             maxX = maxOver (map fst points), maxY = maxOver (map snd points) \<rparr>)"

definition isContainedIn :: "BoundingBox \<Rightarrow> BoundingBox \<Rightarrow> bool" where
  "isContainedIn boxA boxB =
     (let centerX = (minX boxA + maxX boxA) / 2;
          centerY = (minY boxA + maxY boxA) / 2;
          tolerance = 2;
          centerInside =
            (centerX \<ge> minX boxB - tolerance \<and> centerX \<le> maxX boxB + tolerance \<and>
             centerY \<ge> minY boxB - tolerance \<and> centerY \<le> maxY boxB + tolerance);
          areaA = (maxX boxA - minX boxA) * (maxY boxA - minY boxA);
          areaB = (maxX boxB - minX boxB) * (maxY boxB - minY boxB);
          isSmallerShape = (areaA < areaB * (9 / 10))
      in centerInside \<and> isSmallerShape)"

section \<open>Strings and the DOM interface\<close>

text \<open>
  Strings are lists of 8-bit characters; the model covers ASCII markup.  The definitions
  below give the JavaScript string methods the converter calls.
\<close>

definition isWhitespace :: "char \<Rightarrow> bool" where
  "isWhitespace ch = (ch \<in> set [CHR 0x09, CHR 0x0A, CHR 0x0B, CHR 0x0C, CHR 0x0D, CHR 0x20])"

definition trim :: "string \<Rightarrow> string" where
  "trim s = rev (dropWhile isWhitespace (rev (dropWhile isWhitespace s)))"

definition lowerChar :: "char \<Rightarrow> char" where
  "lowerChar ch =
     (let n = (of_char ch :: nat) in if 65 \<le> n \<and> n \<le> 90 then char_of (n + 32) else ch)"

definition toLowerCase :: "string \<Rightarrow> string" where
  "toLowerCase s = map lowerChar s"

text \<open>\<open>s.split(sep)\<close> for a one-character separator; \<open>"".split(sep)\<close> is \<open>[""]\<close>.\<close>

fun splitOn :: "char \<Rightarrow> string \<Rightarrow> string list" where
  "splitOn sep [] = [[]]"
| "splitOn sep (ch # rest) =
     (if ch = sep then [] # splitOn sep rest
      else (case splitOn sep rest of [] \<Rightarrow> [[ch]] | w # ws \<Rightarrow> (ch # w) # ws))"

text \<open>\<open>s.indexOf(ch)\<close>; \<open>None\<close> stands for \<open>-1\<close>.\<close>

fun indexOf :: "char \<Rightarrow> string \<Rightarrow> nat option" where
  "indexOf ch [] = None"
| "indexOf ch (c # rest) =
     (if c = ch then Some 0 else map_option Suc (indexOf ch rest))"

text \<open>\<open>s.split(/\s+/).filter(Boolean)\<close>: the maximal runs of non-whitespace characters.\<close>

fun splitWhitespace :: "string \<Rightarrow> string list" where
  "splitWhitespace [] = []"
| "splitWhitespace (ch # rest) =
     (if isWhitespace ch then splitWhitespace rest
      else (case rest of
              [] \<Rightarrow> [[ch]]
            | c # _ \<Rightarrow> if isWhitespace c then [ch] # splitWhitespace rest
                       else (case splitWhitespace rest of
                               [] \<Rightarrow> [[ch]] | w # ws \<Rightarrow> (ch # w) # ws)))"

definition startsWith :: "string \<Rightarrow> string \<Rightarrow> bool" where
  "startsWith s pre = (take (length pre) s = pre)"

fun includesStr :: "string \<Rightarrow> string \<Rightarrow> bool" where
  "includesStr [] sub = (sub = [])"
| "includesStr (ch # rest) sub = (startsWith (ch # rest) sub \<or> includesStr rest sub)"

definition joinLines :: "string list \<Rightarrow> string" where
  "joinLines ls = (case ls of [] \<Rightarrow> [] | l # rest \<Rightarrow> foldl (\<lambda>acc t. acc @ [CHR 0x0A] @ t) l rest)"

text \<open>The nullish-coalescing operator \<open>a ?? b\<close>, and JavaScript truthiness of a string or null.\<close>

definition orElse :: "'a option \<Rightarrow> 'a option \<Rightarrow> 'a option" where
  "orElse v w = (case v of Some r \<Rightarrow> Some r | None \<Rightarrow> w)"

definition truthy :: "string option \<Rightarrow> bool" where
  "truthy v = (case v of None \<Rightarrow> False | Some s \<Rightarrow> s \<noteq> [])"

text \<open>
  The input tree.  A \<open>Node\<close> is what the parser owns: an element with its tag name, its
  attributes in document order and its children, or a text node.  An \<open>Element\<close> is the
  handle the converter works with: the same element together with the chain of its
  \<open>parentElement\<close> references, so that every upward walk of the source is a structural
  recursion and ends.
\<close>

datatype Node =
  ElementNode string "(string \<times> string) list" "Node list"
| TextNode string

datatype Element =
  El (tagName: string) (attributes: "(string \<times> string) list") (childNodes: "Node list")
     (parentElement: "Element option")

definition getAttribute :: "Element \<Rightarrow> string \<Rightarrow> string option" where
  "getAttribute element name = map_of (attributes element) name"

definition hasAttribute :: "Element \<Rightarrow> string \<Rightarrow> bool" where
  "hasAttribute element name = (getAttribute element name \<noteq> None)"

fun nodeText :: "Node \<Rightarrow> string" where
  "nodeText (TextNode s) = s"
| "nodeText (ElementNode t atts cs) = concat (map nodeText cs)"

definition textContent :: "Element \<Rightarrow> string" where
  "textContent element = concat (map nodeText (childNodes element))"

text \<open>The element nodes below a node, in document order, each with its parent chain.\<close>

fun elementsFrom :: "Element option \<Rightarrow> Node \<Rightarrow> Element list" where
  "elementsFrom parent (TextNode s) = []"
| "elementsFrom parent (ElementNode t atts cs) =
     El t atts cs parent # concat (map (elementsFrom (Some (El t atts cs parent))) cs)"

definition descendants :: "Element \<Rightarrow> Element list" where
  "descendants element = concat (map (elementsFrom (Some element)) (childNodes element))"

text \<open>\<open>element.querySelectorAll("t1, t2, ...")\<close> for a list of tag names.\<close>

definition querySelectorAll :: "Element \<Rightarrow> string list \<Rightarrow> Element list" where
  "querySelectorAll element tags = filter (\<lambda>d. tagName d \<in> set tags) (descendants element)"

datatype error = Error string

text \<open>
  What the converter takes from its libraries and from the JavaScript runtime, as
  parameters of the model.  A library call that throws returns \<open>Inl\<close>; a call that
  does not return is not modelled.
  \<^item> \<open>fround\<close>: the rounding of a floating-point operation, from its exact result to
    the double that is stored;
  \<^item> \<open>parseFloat\<close>: \<open>Number.parseFloat\<close>, \<open>None\<close> for \<open>NaN\<close>;
  \<^item> \<open>numbersIn\<close>: the numeric tokens of a \<open>points\<close> attribute, parsed
    (\<open>pointsAttr.match(...)?.map(Number.parseFloat) ?? []\<close>);
  \<^item> \<open>pointsOnPath\<close>: the path flattener of the points-on-path package;
  \<^item> \<open>fromTransformAttribute\<close>: \<open>fromDefinition(fromTransformAttribute(s))\<close> of the
    transformation-matrix package, the matrices of a transform declaration;
  \<^item> \<open>querySelectorId\<close>: \<open>root.querySelector("#" + id)\<close>, for an id that makes a
    selector the engine accepts; the exception it throws on any other id is caught
    nowhere in the converter and is not modelled;
  \<^item> \<open>Math_random\<close>: the value returned by the n-th call of \<open>Math.random()\<close>;
  \<^item> \<open>base36\<close>: \<open>r.toString(36).slice(2, 15)\<close>;
  \<^item> \<open>parseClassStyles\<close>: the class rules read from the \<open>style\<close> blocks of the tree;
  \<^item> \<open>parseFromString\<close>: the DOM parser, giving the text of a \<open>parsererror\<close> element if
    there is one and the first \<open>svg\<close> element if there is one.
\<close>

text \<open>
  The affine matrix \<open>{a, b, c, d, e, f}\<close> of the transformation-matrix package.  The fields
  carry a prefix here, since a record field is a constant of the theory and one-letter
  constants would capture the variables of every later statement; the same holds for the
  fields of the records below.
\<close>

record Matrix =
  mat_a :: real
  mat_b :: real
  mat_c :: real
  mat_d :: real
  mat_e :: real
  mat_f :: real

record Env =
  fround :: Rounding
  parseFloat :: "string \<Rightarrow> real option"
  numbersIn :: "string \<Rightarrow> real list"
  pointsOnPath :: "string \<Rightarrow> error + Point list list"
  fromTransformAttribute :: "string \<Rightarrow> error + Matrix list"
  querySelectorId :: "Element \<Rightarrow> string \<Rightarrow> Element option"
  Math_random :: "nat \<Rightarrow> real"
  base36 :: "real \<Rightarrow> string"
  parseClassStyles :: "Element \<Rightarrow> string \<Rightarrow> (string \<Rightarrow> string option) option"
  parseFromString :: "string \<Rightarrow> string option \<times> Element option"

section \<open>Style resolver (converter/svg/style.ts)\<close>

record StyleContext =
  svgRoot :: Element
  classStyles :: "string \<Rightarrow> (string \<Rightarrow> string option) option"

text \<open>One declaration of the loop in \<open>parseCssDeclarations\<close>, stored into the map.\<close>

definition addCssDeclaration ::
  "(string \<Rightarrow> string option) \<Rightarrow> string \<Rightarrow> (string \<Rightarrow> string option)" where
  "addCssDeclaration declarations declaration =
     (case indexOf CHR '':'' declaration of
        None \<Rightarrow> declarations
      | Some separatorIndex \<Rightarrow>
          (let property = toLowerCase (trim (take separatorIndex declaration));
               v = trim (drop (separatorIndex + 1) declaration)
           in if property \<noteq> [] \<and> v \<noteq> [] then declarations(property \<mapsto> v)
              else declarations))"

definition parseCssDeclarations :: "string \<Rightarrow> (string \<Rightarrow> string option)" where
  "parseCssDeclarations cssText = foldl addCssDeclaration Map.empty (splitOn CHR '';'' cssText)"

definition getInlineStyleValue :: "Element \<Rightarrow> string \<Rightarrow> string option" where
  "getInlineStyleValue element property =
     (case getAttribute element ''style'' of
        None \<Rightarrow> None
      | Some styleAttr \<Rightarrow>
          if styleAttr = [] then None
          else parseCssDeclarations styleAttr (toLowerCase property))"

text \<open>The loop over the class names: the first class with a non-empty value wins.\<close>

fun firstClassValue ::
  "(string \<Rightarrow> (string \<Rightarrow> string option) option) \<Rightarrow> string \<Rightarrow> string list \<Rightarrow> string option" where
  "firstClassValue styles property [] = None"
| "firstClassValue styles property (className # rest) =
     (let v = (case styles className of None \<Rightarrow> None
               | Some styleMap \<Rightarrow> styleMap (toLowerCase property))
      in if truthy v then v else firstClassValue styles property rest)"

definition getClassStyleValue :: "Element \<Rightarrow> StyleContext \<Rightarrow> string \<Rightarrow> string option" where
  "getClassStyleValue element context property =
     (case getAttribute element ''class'' of
        None \<Rightarrow> None
      | Some classNameAttr \<Rightarrow>
          if classNameAttr = [] then None
          else firstClassValue (classStyles context) property (splitWhitespace classNameAttr))"

text \<open>
  The \<open>while (current)\<close> loop of \<open>getInheritedPresentationValue\<close>, started at
  \<open>element.parentElement\<close>.
\<close>

fun inheritedLoop :: "Element option \<Rightarrow> string \<Rightarrow> string option" where
  "inheritedLoop None property = None"
| "inheritedLoop (Some (El t atts cs parent)) property =
     (let current = El t atts cs parent;
          directAttribute = getAttribute current property
      in if truthy directAttribute then directAttribute
         else let inlineStyleValue = getInlineStyleValue current property
              in if truthy inlineStyleValue then inlineStyleValue
                 else if toLowerCase t = ''svg'' then None
                 else inheritedLoop parent property)"

definition getInheritedPresentationValue :: "Element \<Rightarrow> string \<Rightarrow> string option" where
  "getInheritedPresentationValue element property =
     inheritedLoop (parentElement element) property"

definition getPresentationValue :: "Element \<Rightarrow> StyleContext \<Rightarrow> string \<Rightarrow> string option" where
  "getPresentationValue element context property =
     orElse (getInlineStyleValue element property)
       (orElse (getAttribute element property)
          (orElse (getClassStyleValue element context property)
             (getInheritedPresentationValue element property)))"

definition createStyleContext :: "Env \<Rightarrow> Element \<Rightarrow> StyleContext" where
  "createStyleContext env rootEl =
     \<lparr> svgRoot = rootEl, classStyles = parseClassStyles env rootEl \<rparr>"

text \<open>
  The capture of \<open>(.+?)\)\<close> matched at the start of a string: at least one character that
  is no line terminator, up to the first closing parenthesis after it.
\<close>

definition isLineTerminator :: "char \<Rightarrow> bool" where
  "isLineTerminator ch = (ch = CHR 0x0A \<or> ch = CHR 0x0D)"

fun lazyUntilParen :: "string \<Rightarrow> string option" where
  "lazyUntilParen [] = None"
| "lazyUntilParen (ch # rest) =
     (if isLineTerminator ch then None
      else (case rest of
              [] \<Rightarrow> None
            | c # _ \<Rightarrow> if c = CHR '')'' then Some [ch]
                       else map_option ((#) ch) (lazyUntilParen rest)))"

text \<open>\<open>urlRef.match(/url\(#(.+?)\)/)?.[1]\<close>: the leftmost match.\<close>

fun matchUrlRef :: "string \<Rightarrow> string option" where
  "matchUrlRef [] = None"
| "matchUrlRef (ch # rest) =
     (if startsWith (ch # rest) ''url(#'' then
        (case lazyUntilParen (drop 5 (ch # rest)) of
           Some g \<Rightarrow> Some g
         | None \<Rightarrow> matchUrlRef rest)
      else matchUrlRef rest)"

fun firstStopColor :: "Element list \<Rightarrow> string option" where
  "firstStopColor [] = None"
| "firstStopColor (stopElement # rest) =
     (let stopColor = orElse (getAttribute stopElement ''stop-color'')
                             (getInlineStyleValue stopElement ''stop-color'')
      in if truthy stopColor then stopColor else firstStopColor rest)"

definition resolveGradientUrl :: "Env \<Rightarrow> string \<Rightarrow> Element \<Rightarrow> string option" where
  "resolveGradientUrl env urlRef rootEl =
     (if \<not> startsWith urlRef ''url('' then None
      else (case matchUrlRef urlRef of
              None \<Rightarrow> None
            | Some gradientId \<Rightarrow>
                (case querySelectorId env rootEl gradientId of
                   None \<Rightarrow> None
                 | Some gradientElement \<Rightarrow>
                     firstStopColor (querySelectorAll gradientElement [''stop'']))))"

definition normalizeSvgColor :: "Env \<Rightarrow> string option \<Rightarrow> string \<Rightarrow> Element \<Rightarrow> string" where
  "normalizeSvgColor env color fallback rootEl =
     (case color of
        None \<Rightarrow> fallback
      | Some col \<Rightarrow>
          if col = [] then fallback
          else let normalizedColor = trim col
               in if normalizedColor = [] then fallback
                  else if normalizedColor = ''none'' then ''transparent''
                  else if startsWith normalizedColor ''url('' then
                    (case resolveGradientUrl env normalizedColor rootEl of
                       Some r \<Rightarrow> r | None \<Rightarrow> fallback)
                  else normalizedColor)"

definition getFillColor :: "Env \<Rightarrow> Element \<Rightarrow> StyleContext \<Rightarrow> string" where
  "getFillColor env element context =
     (let fillColor = getPresentationValue element context ''fill'';
          fillColor' = (if \<not> truthy fillColor \<or> fillColor = Some ''none''
                        then orElse (getClassStyleValue element context ''fill'') fillColor
                        else fillColor)
      in normalizeSvgColor env fillColor' ''#000000'' (svgRoot context))"

definition getStrokeColor :: "Env \<Rightarrow> Element \<Rightarrow> StyleContext \<Rightarrow> string" where
  "getStrokeColor env element context =
     (let strokeColor = getPresentationValue element context ''stroke'';
          strokeColor' = (if \<not> truthy strokeColor \<or> strokeColor = Some ''none''
                          then orElse (getClassStyleValue element context ''stroke'') strokeColor
                          else strokeColor)
      in normalizeSvgColor env strokeColor' ''transparent'' (svgRoot context))"

text \<open>The tail shared by the two numeric readers: parse, and fall back on \<open>NaN\<close>.\<close>

definition parseOrFallback :: "Env \<Rightarrow> string option \<Rightarrow> real \<Rightarrow> real" where
  "parseOrFallback env raw fallback =
     (if \<not> truthy raw then fallback
      else (case parseFloat env (the raw) of None \<Rightarrow> fallback | Some v \<Rightarrow> v))"

definition getNumericAttribute :: "Env \<Rightarrow> Element \<Rightarrow> string \<Rightarrow> real \<Rightarrow> real" where
  "getNumericAttribute env element attributeName fallback =
     parseOrFallback env (getAttribute element attributeName) fallback"

definition getNumericPresentationValue ::
  "Env \<Rightarrow> Element \<Rightarrow> StyleContext \<Rightarrow> string \<Rightarrow> real \<Rightarrow> real" where
  "getNumericPresentationValue env element context property fallback =
     parseOrFallback env (getPresentationValue element context property) fallback"

section \<open>Transform resolver (converter/svg/transform.ts)\<close>

text \<open>
  \<open>identity\<close>, \<open>compose\<close> and \<open>applyToPoint\<close> are the functions of the
  transformation-matrix package, written out with the arithmetic that package documents:
  \<open>compose\<close> multiplies its matrices from left to right and throws on an empty array.
\<close>

definition identity :: Matrix where
  "identity = \<lparr> mat_a = 1, mat_b = 0, mat_c = 0, mat_d = 1, mat_e = 0, mat_f = 0 \<rparr>"

definition multiply :: "Matrix \<Rightarrow> Matrix \<Rightarrow> Matrix" where
  "multiply m1 m2 =
     \<lparr> mat_a = mat_a m1 * mat_a m2 + mat_c m1 * mat_b m2,
       mat_b = mat_b m1 * mat_a m2 + mat_d m1 * mat_b m2,
       mat_c = mat_a m1 * mat_c m2 + mat_c m1 * mat_d m2,
       mat_d = mat_b m1 * mat_c m2 + mat_d m1 * mat_d m2,
       mat_e = mat_a m1 * mat_e m2 + mat_c m1 * mat_f m2 + mat_e m1,
       mat_f = mat_b m1 * mat_e m2 + mat_d m1 * mat_f m2 + mat_f m1 \<rparr>"

definition compose :: "Matrix list \<Rightarrow> error + Matrix" where
  "compose matrices =
     (case matrices of
        [] \<Rightarrow> Inl (Error ''no matrices provided'')
      | m # rest \<Rightarrow> Inr (foldl multiply m rest))"

definition applyToPoint :: "Matrix \<Rightarrow> Point \<Rightarrow> Point" where
  "applyToPoint m p =
     (mat_a m * fst p + mat_c m * snd p + mat_e m, mat_b m * fst p + mat_d m * snd p + mat_f m)"

text \<open>
  \<open>getTransformMatrix\<close>: the body of the \<open>try\<close> block is the sum-typed computation, and
  the \<open>catch\<close> clause turns every \<open>Inl\<close> into the identity.
\<close>

definition tryTransformMatrix :: "Env \<Rightarrow> string \<Rightarrow> error + Matrix" where
  "tryTransformMatrix env transformAttribute =
     (case fromTransformAttribute env transformAttribute of
        Inl err \<Rightarrow> Inl err
      | Inr matrices \<Rightarrow> if length matrices > 0 then compose matrices else Inr identity)"

definition getTransformMatrix :: "Env \<Rightarrow> Element \<Rightarrow> Matrix" where
  "getTransformMatrix env element =
     (let transformAttribute = getAttribute element ''transform''
      in if \<not> truthy transformAttribute then identity
         else (case tryTransformMatrix env (the transformAttribute) of
                 Inr m \<Rightarrow> m
               | Inl err \<Rightarrow> identity))"

text \<open>The loop of \<open>getAccumulatedTransform\<close>; \<open>unshift\<close> puts each matrix in front.\<close>

fun accumulateLoop :: "Env \<Rightarrow> Element option \<Rightarrow> Matrix list \<Rightarrow> Matrix list" where
  "accumulateLoop env None matrices = matrices"
| "accumulateLoop env (Some (El t atts cs parent)) matrices =
     (if toLowerCase t = ''svg'' then matrices
      else accumulateLoop env parent (getTransformMatrix env (El t atts cs parent) # matrices))"

text \<open>\<open>compose\<close> is called on a non-empty array only, where it returns the product.\<close>

definition getAccumulatedTransform :: "Env \<Rightarrow> Element \<Rightarrow> Matrix" where
  "getAccumulatedTransform env element =
     (case accumulateLoop env (Some element) [] of
        [] \<Rightarrow> identity
      | m # rest \<Rightarrow> foldl multiply m rest)"

definition transformPoint :: "Point \<Rightarrow> Matrix \<Rightarrow> Point" where
  "transformPoint point matrix = applyToPoint matrix point"

definition transformPoints :: "Point list \<Rightarrow> Matrix \<Rightarrow> Point list" where
  "transformPoints points matrix = map (\<lambda>point. transformPoint point matrix) points"

section \<open>Path decomposer (converter/svg/path.ts)\<close>

record PathSubpathData =
  sd_index :: nat
  sd_x :: real
  sd_y :: real
  sd_width :: real
  sd_height :: real
  sd_relativePoints :: "Point list"
  sd_bbox :: BoundingBox
  sd_area :: real
  sd_windingDirection :: WindingDirection
  sd_isHole :: bool

record ConvertedPathSubpath =
  cp_x :: real
  cp_y :: real
  cp_width :: real
  cp_height :: real
  cp_relativePoints :: "Point list"
  cp_isHole :: bool
  cp_windingDirection :: WindingDirection
  cp_isClosed :: bool

definition hypot :: "real \<Rightarrow> real \<Rightarrow> real" where
  "hypot dx dy = sqrt (dx * dx + dy * dy)"

definition isClosedSubpath :: "Point list \<Rightarrow> bool" where
  "isClosedSubpath points =
     (if length points < 2 then False
      else (case pointAt points 0 of (firstX, firstY) \<Rightarrow>
            case pointAt points (length points - 1) of (lastX, lastY) \<Rightarrow>
              hypot (lastX - firstX) (lastY - firstY) < 1 / 1000))"

text \<open>The loop of \<open>getPathFillRule\<close>, started at \<open>element.parentElement\<close>.\<close>

fun fillRuleLoop :: "Element option \<Rightarrow> string" where
  "fillRuleLoop None = ''nonzero''"
| "fillRuleLoop (Some (El t atts cs parent)) =
     (let inheritedFillRule = getAttribute (El t atts cs parent) ''fill-rule''
      in if truthy inheritedFillRule then the inheritedFillRule
         else if toLowerCase t = ''svg'' then ''nonzero''
         else fillRuleLoop parent)"

definition getPathFillRule :: "Element \<Rightarrow> string" where
  "getPathFillRule element =
     (let ownFillRule = getAttribute element ''fill-rule''
      in if truthy ownFillRule then the ownFillRule
         else fillRuleLoop (parentElement element))"

text \<open>The body of the loop of \<open>buildSubpathData\<close> for one entry with at least two points.\<close>

definition subpathData :: "Rounding \<Rightarrow> nat \<Rightarrow> Point list \<Rightarrow> Matrix \<Rightarrow> PathSubpathData" where
  "subpathData rnd index subpath matrix =
     (let transformed = transformPoints subpath matrix;
          origin = pointAt transformed 0;
          relativePoints = map (\<lambda>(pointX, pointY). (pointX - fst origin, pointY - snd origin))
                             transformed;
          dims = dimensionsFromPoints relativePoints;
          winding = getWindingOrder rnd relativePoints;
          area = getPolygonArea rnd relativePoints;
          bbox = getBoundingBox transformed
      in \<lparr> sd_index = index, sd_x = fst origin, sd_y = snd origin,
           sd_width = fst dims, sd_height = snd dims,
           sd_relativePoints = relativePoints, sd_bbox = bbox, sd_area = area,
           sd_windingDirection = direction winding, sd_isHole = False \<rparr>)"

definition buildSubpathData ::
  "Rounding \<Rightarrow> Point list list \<Rightarrow> Matrix \<Rightarrow> PathSubpathData list" where
  "buildSubpathData rnd pathPoints matrix =
     concat (map (\<lambda>(index, subpath).
                    if length subpath < 2 then [] else [subpathData rnd index subpath matrix])
                 (zip [0..<length pathPoints] pathPoints))"

text \<open>
  \<open>[...subpaths].sort((left, right) => right.area - left.area)\<close>.  The sort of the
  language is stable, and the comparator is a total preorder on real areas, so the result
  is the one of this insertion sort: larger areas first, equal areas in their first order.
\<close>

fun insertByArea :: "PathSubpathData \<Rightarrow> PathSubpathData list \<Rightarrow> PathSubpathData list" where
  "insertByArea s [] = [s]"
| "insertByArea s (t # ts) =
     (if sd_area t - sd_area s > 0 then t # insertByArea s ts else s # t # ts)"

definition sortByArea :: "PathSubpathData list \<Rightarrow> PathSubpathData list" where
  "sortByArea subpaths = foldr insertByArea subpaths []"

text \<open>\<open>sortedByArea[0]?.index ?? -1\<close>.\<close>

definition largestIndex :: "PathSubpathData list \<Rightarrow> int" where
  "largestIndex subpaths =
     (case sortByArea subpaths of [] \<Rightarrow> -1 | s # _ \<Rightarrow> int (sd_index s))"

text \<open>The test of the inner loop for one candidate container.\<close>

definition holeTest :: "bool \<Rightarrow> int \<Rightarrow> PathSubpathData \<Rightarrow> PathSubpathData \<Rightarrow> bool" where
  "holeTest useEvenOdd largestSubpathIndex subpath candidateContainer =
     (let contained = isContainedIn (sd_bbox subpath) (sd_bbox candidateContainer);
          smaller = (sd_area subpath < sd_area candidateContainer);
          oppositeWinding =
            (sd_windingDirection subpath \<noteq> sd_windingDirection candidateContainer);
          windingIsCompatible =
            (useEvenOdd \<or> oppositeWinding \<or>
             int (sd_index candidateContainer) = largestSubpathIndex)
      in contained \<and> smaller \<and> windingIsCompatible)"

text \<open>
  \<open>markHoleSubpaths\<close> sets \<open>isHole\<close> in place.  The tests read the index, the box, the
  area and the winding only, never \<open>isHole\<close>, so each subpath is decided from the list as
  it was passed in, and the function returns the list with the flags set.
\<close>

definition markHoleSubpaths :: "PathSubpathData list \<Rightarrow> bool \<Rightarrow> PathSubpathData list" where
  "markHoleSubpaths subpaths useEvenOdd =
     (if length subpaths < 2 then subpaths
      else let largestSubpathIndex = largestIndex subpaths
           in map (\<lambda>subpath.
                     if int (sd_index subpath) = largestSubpathIndex then subpath
                     else if list_ex (\<lambda>candidateContainer.
                                        sd_index candidateContainer \<noteq> sd_index subpath \<and>
                                        holeTest useEvenOdd largestSubpathIndex subpath
                                          candidateContainer) subpaths
                          then subpath\<lparr> sd_isHole := True \<rparr>
                          else subpath) subpaths)"

definition toConverted :: "PathSubpathData \<Rightarrow> ConvertedPathSubpath" where
  "toConverted subpath =
     \<lparr> cp_x = sd_x subpath, cp_y = sd_y subpath,
       cp_width = sd_width subpath, cp_height = sd_height subpath,
       cp_relativePoints = sd_relativePoints subpath,
       cp_isHole = sd_isHole subpath,
       cp_windingDirection = sd_windingDirection subpath,
       cp_isClosed = isClosedSubpath (sd_relativePoints subpath) \<rparr>"

definition convertPathToSubpaths :: "Env \<Rightarrow> Element \<Rightarrow> Matrix \<Rightarrow> ConvertedPathSubpath list" where
  "convertPathToSubpaths env element matrix =
     (let pathData = getAttribute element ''d''
      in if \<not> truthy pathData then []
         else (case pointsOnPath env (the pathData) of
                 Inl err \<Rightarrow> []
               | Inr pathPoints \<Rightarrow>
                   if length pathPoints = 0 then []
                   else let subpaths = buildSubpathData (fround env) pathPoints matrix;
                            fillRule = toLowerCase (trim (getPathFillRule element));
                            useEvenOdd = (fillRule = ''evenodd'')
                        in map toConverted (markHoleSubpaths subpaths useEvenOdd)))"

section \<open>Output elements (converter/types.ts)\<close>

datatype ElementType = Rectangle | Ellipse | Line | Arrow | Draw | Text

datatype Arrowhead = ArrowheadArrow | ArrowheadBar | ArrowheadDot

text \<open>
  One record holds every variant of \<open>ExcalidrawElement\<close>: the fields of the base
  element, and the fields a variant adds as options that are \<open>None\<close> where the object
  has no such key.  \<open>null\<close> as an arrowhead is \<open>None\<close>.  The constant keys
  \<open>boundElementIds\<close>, \<open>startBinding\<close> and \<open>endBinding\<close>, always \<open>null\<close>, are left out.
\<close>

record ArrowFields =
  startArrowhead :: "Arrowhead option"
  endArrowhead :: "Arrowhead option"

record TextFields =
  tf_text :: string
  tf_originalText :: string
  tf_fontSize :: real
  tf_fontFamily :: nat
  tf_baseline :: real
  tf_textAlign :: string
  tf_verticalAlign :: string
  tf_lineHeight :: real

record ExcalidrawElement =
  el_id :: string
  el_type :: ElementType
  el_x :: real
  el_y :: real
  el_strokeColor :: string
  el_backgroundColor :: string
  el_fillStyle :: string
  el_strokeWidth :: real
  el_strokeStyle :: string
  el_strokeSharpness :: string
  el_roughness :: real
  el_opacity :: real
  el_width :: real
  el_height :: real
  el_angle :: real
  el_seed :: int
  el_version :: int
  el_versionNonce :: int
  el_isDeleted :: bool
  el_groupIds :: "string list"
  el_points :: "Point list option"
  el_arrow :: "ArrowFields option"
  el_text :: "TextFields option"

record ExcalidrawDocument =
  doc_type :: string
  doc_version :: nat
  doc_source :: string
  doc_elements :: "ExcalidrawElement list"

section \<open>Element synthesizers (converter/svg/converters.ts)\<close>

text \<open>
  \<open>Math.random\<close> is the one piece of state: the number of calls made so far is passed
  through every function that draws from it and returned increased.
\<close>

type_synonym Rng = nat

definition randomId :: "Env \<Rightarrow> Rng \<Rightarrow> string \<times> Rng" where
  "randomId env s =
     (base36 env (Math_random env s) @ base36 env (Math_random env (s + 1)), s + 2)"

definition randomInteger :: "Env \<Rightarrow> Rng \<Rightarrow> int \<times> Rng" where
  "randomInteger env s = (\<lfloor>Math_random env s * 2147483647\<rfloor>, s + 1)"

record ConverterContext =
  styleContext :: StyleContext

text \<open>What a converter returns: \<open>null\<close>, one element, or an array of elements.\<close>

datatype Conversion = Null | Single ExcalidrawElement | Many "ExcalidrawElement list"

type_synonym BaseFactory = "Rng \<Rightarrow> ExcalidrawElement \<times> Rng"

type_synonym SvgTagConverter =
  "Env \<Rightarrow> Element \<Rightarrow> ConverterContext \<Rightarrow> BaseFactory \<Rightarrow> Rng \<Rightarrow> Conversion \<times> Rng"

text \<open>The \<open>options\<close> argument of the three element builders; an absent key is \<open>None\<close>.\<close>

record Options =
  opt_closePath :: bool
  opt_groupIds :: "string list option"
  opt_forceBackgroundColor :: "string option"
  opt_forceStrokeColor :: "string option"

definition noOptions :: Options where
  "noOptions = \<lparr> opt_closePath = False, opt_groupIds = None,
                 opt_forceBackgroundColor = None, opt_forceStrokeColor = None \<rparr>"

fun pairUp :: "real list \<Rightarrow> Point list" where
  "pairUp (vx # vy # rest) = (vx, vy) # pairUp rest"
| "pairUp _ = []"

definition parsePointsAttribute :: "Env \<Rightarrow> string \<Rightarrow> Point list" where
  "parsePointsAttribute env pointsAttr = pairUp (numbersIn env pointsAttr)"

definition relativeTo :: "Point \<Rightarrow> Point list \<Rightarrow> Point list" where
  "relativeTo origin points =
     map (\<lambda>(pointX, pointY). (pointX - fst origin, pointY - snd origin)) points"

definition createLineFromPoints ::
  "Env \<Rightarrow> Point list \<Rightarrow> Element \<Rightarrow> ConverterContext \<Rightarrow> BaseFactory \<Rightarrow> Options \<Rightarrow> Rng
     \<Rightarrow> ExcalidrawElement option \<times> Rng" where
  "createLineFromPoints env transformedPoints element context createBase options s =
     (if length transformedPoints = 0 then (None, s)
      else let origin = pointAt transformedPoints 0;
               relativePoints =
                 relativeTo origin transformedPoints @
                 (if opt_closePath options then [(0, 0)] else []);
               dims = dimensionsFromPoints relativePoints;
               backgroundColor =
                 (case opt_forceBackgroundColor options of
                    Some col \<Rightarrow> col
                  | None \<Rightarrow> getFillColor env element (styleContext context));
               strokeColor =
                 (case opt_forceStrokeColor options of
                    Some col \<Rightarrow> col
                  | None \<Rightarrow> getStrokeColor env element (styleContext context));
               made = createBase s
           in (Some ((fst made)\<lparr>
                 el_type := Line, el_x := fst origin, el_y := snd origin,
                 el_width := fst dims, el_height := snd dims,
                 el_points := Some relativePoints,
                 el_backgroundColor := backgroundColor,
                 el_strokeColor := strokeColor,
                 el_strokeWidth := getNumericAttribute env element ''stroke-width'' 1,
                 el_groupIds := (case opt_groupIds options of Some g \<Rightarrow> g | None \<Rightarrow> []) \<rparr>),
               snd made))"

definition markerToArrowhead :: "string option \<Rightarrow> Arrowhead option" where
  "markerToArrowhead markerValue =
     (if \<not> truthy markerValue \<or> markerValue = Some ''none'' then None
      else let normalized = toLowerCase (the markerValue)
           in if includesStr normalized ''dot'' \<or> includesStr normalized ''circle''
              then Some ArrowheadDot
              else if includesStr normalized ''bar'' then Some ArrowheadBar
              else Some ArrowheadArrow)"

definition getArrowheads :: "Element \<Rightarrow> ConverterContext \<Rightarrow> ArrowFields" where
  "getArrowheads element context =
     (let markerStart = getPresentationValue element (styleContext context) ''marker-start'';
          markerEnd = getPresentationValue element (styleContext context) ''marker-end''
      in \<lparr> startArrowhead = markerToArrowhead markerStart,
           endArrowhead = markerToArrowhead markerEnd \<rparr>)"

definition shouldUseArrowType :: "Element \<Rightarrow> ConverterContext \<Rightarrow> bool" where
  "shouldUseArrowType element context =
     (let heads = getArrowheads element context
      in startArrowhead heads \<noteq> None \<or> endArrowhead heads \<noteq> None)"

definition createArrowFromPoints ::
  "Env \<Rightarrow> Point list \<Rightarrow> Element \<Rightarrow> ConverterContext \<Rightarrow> BaseFactory \<Rightarrow> Options \<Rightarrow> Rng
     \<Rightarrow> ExcalidrawElement option \<times> Rng" where
  "createArrowFromPoints env transformedPoints element context createBase options s =
     (if length transformedPoints = 0 then (None, s)
      else let origin = pointAt transformedPoints 0;
               relativePoints =
                 relativeTo origin transformedPoints @
                 (if opt_closePath options then [(0, 0)] else []);
               dims = dimensionsFromPoints relativePoints;
               heads = getArrowheads element context;
               made = createBase s
           in (Some ((fst made)\<lparr>
                 el_type := Arrow, el_x := fst origin, el_y := snd origin,
                 el_width := fst dims, el_height := snd dims,
                 el_points := Some relativePoints,
                 el_backgroundColor := ''transparent'',
                 el_strokeColor := getStrokeColor env element (styleContext context),
                 el_strokeWidth :=
                   getNumericPresentationValue env element (styleContext context)
                     ''stroke-width'' 1,
                 el_groupIds := (case opt_groupIds options of Some g \<Rightarrow> g | None \<Rightarrow> []),
                 el_arrow := Some heads \<rparr>),
               snd made))"

definition createDrawFromPoints ::
  "Env \<Rightarrow> Point list \<Rightarrow> Element \<Rightarrow> ConverterContext \<Rightarrow> BaseFactory \<Rightarrow> Options \<Rightarrow> Rng
     \<Rightarrow> ExcalidrawElement option \<times> Rng" where
  "createDrawFromPoints env transformedPoints element context createBase options s =
     (if length transformedPoints < 2 then (None, s)
      else let origin = pointAt transformedPoints 0;
               relativePoints = relativeTo origin transformedPoints;
               dims = dimensionsFromPoints relativePoints;
               fillColor =
                 (case opt_forceBackgroundColor options of
                    Some col \<Rightarrow> col
                  | None \<Rightarrow> getFillColor env element (styleContext context));
               strokeColor =
                 (case opt_forceStrokeColor options of
                    Some col \<Rightarrow> col
                  | None \<Rightarrow> getStrokeColor env element (styleContext context));
               strokeWidth = getNumericAttribute env element ''stroke-width'' 1;
               made = createBase s
           in (Some ((fst made)\<lparr>
                 el_type := Draw, el_x := fst origin, el_y := snd origin,
                 el_width := fst dims, el_height := snd dims,
                 el_points := Some relativePoints,
                 el_backgroundColor := fillColor,
                 el_strokeColor := strokeColor,
                 el_strokeWidth := strokeWidth,
                 el_groupIds := (case opt_groupIds options of Some g \<Rightarrow> g | None \<Rightarrow> []) \<rparr>),
               snd made))"

definition getTextContent :: "Element \<Rightarrow> string" where
  "getTextContent element =
     (let tspans = querySelectorAll element [''tspan'']
      in if length tspans = 0 then trim (textContent element)
         else joinLines (filter (\<lambda>line. length line > 0)
                           (map (\<lambda>tspan. trim (textContent tspan)) tspans)))"

text \<open>\<open>Number.parseFloat(element.getAttribute(name) ?? "")\<close>.\<close>

definition parseAttr :: "Env \<Rightarrow> Element \<Rightarrow> string \<Rightarrow> real option" where
  "parseAttr env element name =
     parseFloat env (case getAttribute element name of Some v \<Rightarrow> v | None \<Rightarrow> [])"

definition getTextAnchorPoint :: "Env \<Rightarrow> Element \<Rightarrow> Point" where
  "getTextAnchorPoint env element =
     (case (parseAttr env element ''x'', parseAttr env element ''y'') of
        (Some textX, Some textY) \<Rightarrow> (textX, textY)
      | _ \<Rightarrow>
        (case querySelectorAll element [''tspan''] of
           [] \<Rightarrow> (0, 0)
         | firstTspan # _ \<Rightarrow>
             (case (parseAttr env firstTspan ''x'', parseAttr env firstTspan ''y'') of
                (Some tspanX, Some tspanY) \<Rightarrow> (tspanX, tspanY)
              | _ \<Rightarrow> (0, 0))))"

definition toTextAlign :: "string option \<Rightarrow> string" where
  "toTextAlign textAnchor =
     (if textAnchor = Some ''middle'' then ''center''
      else if textAnchor = Some ''end'' then ''right''
      else ''left'')"

definition toVerticalAlign :: "string option \<Rightarrow> string" where
  "toVerticalAlign dominantBaseline =
     (if dominantBaseline = Some ''middle'' \<or> dominantBaseline = Some ''central''
      then ''middle'' else ''top'')"

definition rectConverter :: SvgTagConverter where
  "rectConverter env element context createBase s =
     (let rx = getNumericAttribute env element ''x'' 0;
          ry = getNumericAttribute env element ''y'' 0;
          width = getNumericAttribute env element ''width'' 0;
          height = getNumericAttribute env element ''height'' 0
      in if width \<le> 0 \<or> height \<le> 0 then (Null, s)
         else let matrix = getAccumulatedTransform env element;
                  transformedCorners =
                    transformPoints [(rx, ry), (rx + width, ry),
                                     (rx + width, ry + height), (rx, ry + height)] matrix;
                  bounds = getBoundingBox transformedCorners;
                  isRounded = (hasAttribute element ''rx'' \<or> hasAttribute element ''ry'');
                  made = createBase s
              in (Single ((fst made)\<lparr>
                    el_type := Rectangle,
                    el_x := minX bounds, el_y := minY bounds,
                    el_width := maxX bounds - minX bounds,
                    el_height := maxY bounds - minY bounds,
                    el_backgroundColor := getFillColor env element (styleContext context),
                    el_strokeColor := getStrokeColor env element (styleContext context),
                    el_strokeWidth := getNumericAttribute env element ''stroke-width'' 1,
                    el_strokeSharpness := (if isRounded then ''round'' else ''sharp'') \<rparr>),
                  snd made))"

definition circleConverter :: SvgTagConverter where
  "circleConverter env element context createBase s =
     (let cx = getNumericAttribute env element ''cx'' 0;
          cy = getNumericAttribute env element ''cy'' 0;
          radius = getNumericAttribute env element ''r'' 0
      in if radius \<le> 0 then (Null, s)
         else let matrix = getAccumulatedTransform env element;
                  transformed =
                    transformPoints [(cx - radius, cy), (cx + radius, cy),
                                     (cx, cy - radius), (cx, cy + radius)] matrix;
                  bounds = getBoundingBox transformed;
                  made = createBase s
              in (Single ((fst made)\<lparr>
                    el_type := Ellipse,
                    el_x := minX bounds, el_y := minY bounds,
                    el_width := maxX bounds - minX bounds,
                    el_height := maxY bounds - minY bounds,
                    el_backgroundColor := getFillColor env element (styleContext context),
                    el_strokeColor := getStrokeColor env element (styleContext context),
                    el_strokeWidth := getNumericAttribute env element ''stroke-width'' 1 \<rparr>),
                  snd made))"

definition ellipseConverter :: SvgTagConverter where
  "ellipseConverter env element context createBase s =
     (let cx = getNumericAttribute env element ''cx'' 0;
          cy = getNumericAttribute env element ''cy'' 0;
          radiusX = getNumericAttribute env element ''rx'' 0;
          radiusY = getNumericAttribute env element ''ry'' 0
      in if radiusX \<le> 0 \<or> radiusY \<le> 0 then (Null, s)
         else let matrix = getAccumulatedTransform env element;
                  transformed =
                    transformPoints [(cx - radiusX, cy), (cx + radiusX, cy),
                                     (cx, cy - radiusY), (cx, cy + radiusY)] matrix;
                  bounds = getBoundingBox transformed;
                  made = createBase s
              in (Single ((fst made)\<lparr>
                    el_type := Ellipse,
                    el_x := minX bounds, el_y := minY bounds,
                    el_width := maxX bounds - minX bounds,
                    el_height := maxY bounds - minY bounds,
                    el_backgroundColor := getFillColor env element (styleContext context),
                    el_strokeColor := getStrokeColor env element (styleContext context),
                    el_strokeWidth := getNumericAttribute env element ''stroke-width'' 1 \<rparr>),
                  snd made))"

text \<open>A builder's \<open>Element | null\<close> as the converter's return value.\<close>

definition asConversion :: "ExcalidrawElement option \<times> Rng \<Rightarrow> Conversion \<times> Rng" where
  "asConversion r = (case fst r of None \<Rightarrow> Null | Some el \<Rightarrow> Single el, snd r)"

definition polygonConverter :: SvgTagConverter where
  "polygonConverter env element context createBase s =
     (let pointsAttr = (case getAttribute element ''points'' of Some v \<Rightarrow> v | None \<Rightarrow> []);
          points = parsePointsAttribute env pointsAttr
      in if length points < 2 then (Null, s)
         else let matrix = getAccumulatedTransform env element;
                  transformedPoints = transformPoints points matrix
              in asConversion
                   (createLineFromPoints env transformedPoints element context createBase
                      (noOptions\<lparr> opt_closePath := True \<rparr>) s))"

definition polylineConverter :: SvgTagConverter where
  "polylineConverter env element context createBase s =
     (let pointsAttr = (case getAttribute element ''points'' of Some v \<Rightarrow> v | None \<Rightarrow> []);
          points = parsePointsAttribute env pointsAttr
      in if length points < 2 then (Null, s)
         else let matrix = getAccumulatedTransform env element;
                  transformedPoints = transformPoints points matrix
              in if shouldUseArrowType element context
                 then asConversion
                        (createArrowFromPoints env transformedPoints element context createBase
                           noOptions s)
                 else asConversion
                        (createLineFromPoints env transformedPoints element context createBase
                           noOptions s))"

definition lineConverter :: SvgTagConverter where
  "lineConverter env element context createBase s =
     (let x1 = getNumericAttribute env element ''x1'' 0;
          y1 = getNumericAttribute env element ''y1'' 0;
          x2 = getNumericAttribute env element ''x2'' 0;
          y2 = getNumericAttribute env element ''y2'' 0;
          matrix = getAccumulatedTransform env element;
          transformedPoints = transformPoints [(x1, y1), (x2, y2)] matrix
      in if shouldUseArrowType element context
         then asConversion
                (createArrowFromPoints env transformedPoints element context createBase
                   noOptions s)
         else asConversion
                (createLineFromPoints env transformedPoints element context createBase
                   (noOptions\<lparr> opt_forceBackgroundColor := Some ''transparent'' \<rparr>) s))"

text \<open>
  The values \<open>pathConverter\<close> computes before its \<open>map\<close>, which the callback closes over.
\<close>

record PathStyle =
  ps_sharedGroupIds :: "string list"
  ps_fillColor :: string
  ps_strokeColor :: string
  ps_strokeWidth :: real
  ps_fillRule :: string
  ps_hasVisibleFill :: bool
  ps_hasVisibleStroke :: bool

text \<open>
  The callback of the \<open>map\<close> for one subpath.  Beside the random source it reads and
  writes the variable \<open>initialWinding\<close>, \<open>None\<close> while it is \<open>null\<close>.
\<close>

definition subpathElement ::
  "Env \<Rightarrow> Element \<Rightarrow> ConverterContext \<Rightarrow> BaseFactory \<Rightarrow> PathStyle
     \<Rightarrow> WindingDirection option \<times> Rng \<Rightarrow> ConvertedPathSubpath
     \<Rightarrow> ExcalidrawElement option \<times> (WindingDirection option \<times> Rng)" where
  "subpathElement env element context createBase style st subpath =
     (let initialWinding = fst st; s = snd st;
          absolutePoints =
            map (\<lambda>(pointX, pointY). (cp_x subpath + pointX, cp_y subpath + pointY))
                (cp_relativePoints subpath)
      in if \<not> cp_isClosed subpath then
           (if \<not> ps_hasVisibleStroke style then (None, (initialWinding, s))
            else if shouldUseArrowType element context then
              (let r = createArrowFromPoints env absolutePoints element context createBase
                         (noOptions\<lparr> opt_groupIds := Some (ps_sharedGroupIds style) \<rparr>) s
               in (fst r, (initialWinding, snd r)))
            else
              (let r = createLineFromPoints env absolutePoints element context createBase
                         \<lparr> opt_closePath = False,
                           opt_groupIds = Some (ps_sharedGroupIds style),
                           opt_forceBackgroundColor = Some ''transparent'',
                           opt_forceStrokeColor = Some (ps_strokeColor style) \<rparr> s
               in (fst r, (initialWinding, snd r))))
         else if \<not> ps_hasVisibleFill style then
           (if \<not> ps_hasVisibleStroke style then (None, (initialWinding, s))
            else
              (let r = createLineFromPoints env absolutePoints element context createBase
                         \<lparr> opt_closePath = True,
                           opt_groupIds = Some (ps_sharedGroupIds style),
                           opt_forceBackgroundColor = Some ''transparent'',
                           opt_forceStrokeColor = Some (ps_strokeColor style) \<rparr> s
               in (fst r, (initialWinding, snd r))))
         else
           (let winding = cp_windingDirection subpath;
                initialWinding' =
                  (if ps_fillRule style = ''nonzero'' \<and> initialWinding = None
                   then Some winding else initialWinding);
                backgroundColor =
                  (if ps_fillRule style = ''nonzero'' then
                     (if initialWinding = None then ps_fillColor style
                      else if Some winding \<noteq> initialWinding \<or> cp_isHole subpath
                           then ''transparent'' else ps_fillColor style)
                   else if cp_isHole subpath then ''transparent''
                   else ps_fillColor style);
                r = createDrawFromPoints env absolutePoints element context createBase
                      \<lparr> opt_closePath = False,
                        opt_groupIds = Some (ps_sharedGroupIds style),
                        opt_forceBackgroundColor = Some backgroundColor,
                        opt_forceStrokeColor = Some (ps_strokeColor style) \<rparr> s
            in (case fst r of
                  None \<Rightarrow> (None, (initialWinding', snd r))
                | Some draw \<Rightarrow>
                    (Some (if \<not> ps_hasVisibleStroke style
                           then draw\<lparr> el_strokeWidth := 0 \<rparr> else draw),
                     (initialWinding', snd r)))))"

text \<open>\<open>convertedSubpaths.map(callback)\<close>, with the state handed from call to call.\<close>

fun mapSubpaths ::
  "(WindingDirection option \<times> Rng \<Rightarrow> ConvertedPathSubpath
      \<Rightarrow> ExcalidrawElement option \<times> (WindingDirection option \<times> Rng))
   \<Rightarrow> WindingDirection option \<times> Rng \<Rightarrow> ConvertedPathSubpath list
   \<Rightarrow> ExcalidrawElement option list \<times> (WindingDirection option \<times> Rng)" where
  "mapSubpaths callback st [] = ([], st)"
| "mapSubpaths callback st (subpath # rest) =
     (let r = callback st subpath;
          rs = mapSubpaths callback (snd r) rest
      in (fst r # fst rs, snd rs))"

text \<open>
  The \<open>fillRule\<close> of \<open>pathConverter\<close>:
  \<open>(element.getAttribute("fill-rule") ?? "nonzero").trim().toLowerCase()\<close>, read from the
  path's own attribute only.
\<close>

definition ownFillRule :: "Element \<Rightarrow> string" where
  "ownFillRule element =
     toLowerCase (trim (case getAttribute element ''fill-rule'' of
                          Some v \<Rightarrow> v | None \<Rightarrow> ''nonzero''))"

definition pathStyle :: "Env \<Rightarrow> Element \<Rightarrow> ConverterContext \<Rightarrow> string list \<Rightarrow> PathStyle" where
  "pathStyle env element context sharedGroupIds =
     (let fillColor = getFillColor env element (styleContext context);
          strokeColor = getStrokeColor env element (styleContext context);
          strokeWidth =
            getNumericPresentationValue env element (styleContext context) ''stroke-width'' 1;
          fillRule = ownFillRule element
      in \<lparr> ps_sharedGroupIds = sharedGroupIds, ps_fillColor = fillColor,
           ps_strokeColor = strokeColor, ps_strokeWidth = strokeWidth,
           ps_fillRule = fillRule,
           ps_hasVisibleFill = (fillColor \<noteq> ''transparent''),
           ps_hasVisibleStroke = (strokeColor \<noteq> ''transparent'' \<and> strokeWidth > 0) \<rparr>)"

text \<open>
  The array the \<open>map\<close> of \<open>pathConverter\<close> builds, one entry per subpath, before the
  \<open>filter\<close> drops the \<open>null\<close> entries; \<open>None\<close> when the path has no subpath and the
  converter returns \<open>null\<close> at once.
\<close>

definition pathEntries ::
  "Env \<Rightarrow> Element \<Rightarrow> ConverterContext \<Rightarrow> BaseFactory \<Rightarrow> Rng
     \<Rightarrow> (ExcalidrawElement option list) option \<times> Rng" where
  "pathEntries env element context createBase s =
     (let matrix = getAccumulatedTransform env element;
          convertedSubpaths = convertPathToSubpaths env element matrix
      in if length convertedSubpaths = 0 then (None, s)
         else let hasMultipleSubpaths = (length convertedSubpaths > 1);
                  ids = (if hasMultipleSubpaths
                         then ([fst (randomId env s)], snd (randomId env s)) else ([], s));
                  style = pathStyle env element context (fst ids);
                  r = mapSubpaths (subpathElement env element context createBase style)
                        (None, snd ids) convertedSubpaths
              in (Some (fst r), snd (snd r)))"

definition pathConverter :: SvgTagConverter where
  "pathConverter env element context createBase s =
     (let r = pathEntries env element context createBase s
      in (case fst r of
            None \<Rightarrow> (Null, snd r)
          | Some entries \<Rightarrow> (Many (List.map_filter (\<lambda>item. item) entries), snd r)))"

definition textConverter :: SvgTagConverter where
  "textConverter env element context createBase s =
     (let rawText = getTextContent element
      in if rawText = [] then (Null, s)
         else let anchor = getTextAnchorPoint env element;
                  fontSize =
                    max 1 (getNumericPresentationValue env element (styleContext context)
                             ''font-size'' 20);
                  matrix = getAccumulatedTransform env element;
                  transformedPosition =
                    (case transformPoints [anchor] matrix of p # _ \<Rightarrow> p | [] \<Rightarrow> anchor);
                  tx = fst transformedPosition; ty = snd transformedPosition;
                  lines = splitOn CHR 0x0A rawText;
                  maxChars = foldl (\<lambda>m line. max m (length line)) 0 lines;
                  lineHeight = 5 / 4;
                  width = max 1 (real maxChars * fontSize * (6 / 10));
                  height = max 1 (real (length lines) * fontSize * lineHeight);
                  textAlign =
                    toTextAlign
                      (getPresentationValue element (styleContext context) ''text-anchor'');
                  verticalAlign =
                    toVerticalAlign
                      (getPresentationValue element (styleContext context)
                         ''dominant-baseline'');
                  textX = (if textAlign = ''center'' then tx - width / 2
                           else if textAlign = ''right'' then tx - width else tx);
                  textY = (if verticalAlign = ''middle'' then ty - height / 2
                           else ty - fontSize * (8 / 10));
                  textColor = getFillColor env element (styleContext context);
                  made = createBase s
              in (Single ((fst made)\<lparr>
                    el_type := Text, el_x := textX, el_y := textY,
                    el_width := width, el_height := height,
                    el_strokeColor := textColor,
                    el_backgroundColor := ''transparent'',
                    el_strokeWidth := 0,
                    el_text := Some \<lparr> tf_text = rawText, tf_originalText = rawText,
                                      tf_fontSize = fontSize, tf_fontFamily = 2,
                                      tf_baseline = fontSize, tf_textAlign = textAlign,
                                      tf_verticalAlign = verticalAlign,
                                      tf_lineHeight = lineHeight \<rparr> \<rparr>),
                  snd made))"

text \<open>The table \<open>svgConverters\<close>; \<open>None\<close> for a key the object does not have.\<close>

definition svgConverters :: "string \<Rightarrow> SvgTagConverter option" where
  "svgConverters tag =
     (if tag = ''rect'' then Some rectConverter
      else if tag = ''circle'' then Some circleConverter
      else if tag = ''ellipse'' then Some ellipseConverter
      else if tag = ''line'' then Some lineConverter
      else if tag = ''polygon'' then Some polygonConverter
      else if tag = ''polyline'' then Some polylineConverter
      else if tag = ''path'' then Some pathConverter
      else if tag = ''text'' then Some textConverter
      else None)"

section \<open>Conversion orchestrator (converter/convert.ts)\<close>

definition SUPPORTED_TAGS :: "string list" where
  "SUPPORTED_TAGS =
     [''rect'', ''circle'', ''ellipse'', ''line'', ''polygon'', ''polyline'', ''path'', ''text'']"

definition EXCALIDRAW_SOURCE :: string where
  "EXCALIDRAW_SOURCE = ''https://excalidraw.com''"

definition NON_RENDERED_CONTAINER_TAGS :: "string list" where
  "NON_RENDERED_CONTAINER_TAGS =
     [''defs'', ''symbol'', ''clipPath'', ''mask'', ''marker'', ''pattern'',
      ''lineargradient'', ''radialgradient'', ''filter'']"

text \<open>One declaration of the loop in \<open>parseInlineStyle\<close>; key and value are lower-cased.\<close>

definition addInlineDeclaration ::
  "(string \<Rightarrow> string option) \<Rightarrow> string \<Rightarrow> (string \<Rightarrow> string option)" where
  "addInlineDeclaration styleMap declaration =
     (case indexOf CHR '':'' declaration of
        None \<Rightarrow> styleMap
      | Some separatorIndex \<Rightarrow>
          (let k = toLowerCase (trim (take separatorIndex declaration));
               v = toLowerCase (trim (drop (separatorIndex + 1) declaration))
           in if k \<noteq> [] \<and> v \<noteq> [] then styleMap(k \<mapsto> v) else styleMap))"

definition parseInlineStyle :: "string option \<Rightarrow> (string \<Rightarrow> string option)" where
  "parseInlineStyle styleText =
     (if \<not> truthy styleText then Map.empty
      else foldl addInlineDeclaration Map.empty (splitOn CHR '';'' (the styleText)))"

text \<open>The loop of \<open>hasNonRenderedAncestor\<close>, started at the element itself.\<close>

fun nonRenderedLoop :: "Element option \<Rightarrow> bool" where
  "nonRenderedLoop None = False"
| "nonRenderedLoop (Some (El t atts cs parent)) =
     (if toLowerCase t \<in> set NON_RENDERED_CONTAINER_TAGS then True
      else nonRenderedLoop parent)"

definition hasNonRenderedAncestor :: "Element \<Rightarrow> bool" where
  "hasNonRenderedAncestor element = nonRenderedLoop (Some element)"

definition attrOrEmpty :: "Element \<Rightarrow> string \<Rightarrow> string" where
  "attrOrEmpty element name = (case getAttribute element name of Some v \<Rightarrow> v | None \<Rightarrow> [])"

text \<open>The body of the loop of \<open>isVisuallyHidden\<close> for one element.\<close>

definition hidesHere :: "Env \<Rightarrow> Element \<Rightarrow> bool" where
  "hidesHere env current =
     (let display = toLowerCase (trim (attrOrEmpty current ''display''));
          visibility = toLowerCase (trim (attrOrEmpty current ''visibility''));
          opacityAttr = trim (attrOrEmpty current ''opacity'');
          styleMap = parseInlineStyle (getAttribute current ''style'');
          styleDisplay = styleMap ''display'';
          styleVisibility = styleMap ''visibility'';
          styleOpacity = styleMap ''opacity'';
          opacityValue =
            (case styleOpacity of
               Some v \<Rightarrow> parseFloat env v
             | None \<Rightarrow> if opacityAttr \<noteq> [] then parseFloat env opacityAttr else None)
      in if display = ''none'' \<or> styleDisplay = Some ''none'' then True
         else if visibility = ''hidden'' \<or> styleVisibility = Some ''hidden'' then True
         else (case opacityValue of Some v \<Rightarrow> v \<le> 0 | None \<Rightarrow> False))"

fun hiddenLoop :: "Env \<Rightarrow> Element option \<Rightarrow> bool" where
  "hiddenLoop env None = False"
| "hiddenLoop env (Some (El t atts cs parent)) =
     (if hidesHere env (El t atts cs parent) then True else hiddenLoop env parent)"

definition isVisuallyHidden :: "Env \<Rightarrow> Element \<Rightarrow> bool" where
  "isVisuallyHidden env element = hiddenLoop env (Some element)"

definition shouldConvertNode :: "Env \<Rightarrow> Element \<Rightarrow> bool" where
  "shouldConvertNode env node =
     (if hasNonRenderedAncestor node then False
      else if isVisuallyHidden env node then False
      else True)"

definition createBaseElement :: "Env \<Rightarrow> BaseFactory" where
  "createBaseElement env s =
     (let newId = randomId env s;
          newSeed = randomInteger env (snd newId);
          newNonce = randomInteger env (snd newSeed)
      in (\<lparr> el_id = fst newId, el_type = Line, el_x = 0, el_y = 0,
            el_strokeColor = ''#000000'', el_backgroundColor = ''transparent'',
            el_fillStyle = ''solid'', el_strokeWidth = 1, el_strokeStyle = ''solid'',
            el_strokeSharpness = ''sharp'', el_roughness = 0, el_opacity = 100,
            el_width = 0, el_height = 0, el_angle = 0,
            el_seed = fst newSeed, el_version = 1, el_versionNonce = fst newNonce,
            el_isDeleted = False, el_groupIds = [],
            el_points = None, el_arrow = None, el_text = None \<rparr>,
          snd newNonce))"

definition parseSvg :: "Env \<Rightarrow> string \<Rightarrow> error + Element" where
  "parseSvg env svgMarkup =
     (case parseFromString env svgMarkup of
        (Some errorText, _) \<Rightarrow> Inl (Error (''SVG parsing error: '' @ trim errorText))
      | (None, None) \<Rightarrow> Inl (Error ''Input does not contain a valid <svg> root element.'')
      | (None, Some rootEl) \<Rightarrow> Inr rootEl)"

text \<open>
  What the loop of \<open>convertSvgToExcalidraw\<close> pushes onto \<open>elements\<close> for one
  conversion: nothing for \<open>null\<close>, the element, or the members of the array (an array is
  truthy even when it is empty, and then nothing is pushed).
\<close>

definition pushedElements :: "Conversion \<Rightarrow> ExcalidrawElement list" where
  "pushedElements conversion =
     (case conversion of Null \<Rightarrow> [] | Single el \<Rightarrow> [el] | Many els \<Rightarrow> els)"

definition convertNode ::
  "Env \<Rightarrow> ConverterContext \<Rightarrow> Element \<Rightarrow> Rng \<Rightarrow> ExcalidrawElement list \<times> Rng" where
  "convertNode env context node s =
     (case svgConverters (toLowerCase (tagName node)) of
        None \<Rightarrow> ([], s)
      | Some converter \<Rightarrow>
          (let r = converter env node context (createBaseElement env) s
           in (pushedElements (fst r), snd r)))"

fun convertNodes ::
  "Env \<Rightarrow> ConverterContext \<Rightarrow> Element list \<Rightarrow> Rng \<Rightarrow> ExcalidrawElement list \<times> Rng" where
  "convertNodes env context [] s = ([], s)"
| "convertNodes env context (node # rest) s =
     (let r = convertNode env context node s;
          rs = convertNodes env context rest (snd r)
      in (fst r @ fst rs, snd rs))"

text \<open>The nodes the orchestrator dispatches: the supported tags that pass the filter.\<close>

definition selectedNodes :: "Env \<Rightarrow> Element \<Rightarrow> Element list" where
  "selectedNodes env rootEl =
     filter (shouldConvertNode env) (querySelectorAll rootEl SUPPORTED_TAGS)"

text \<open>
  The conversion of a parsed tree, the part of \<open>convertSvgToExcalidraw\<close> after
  \<open>parseSvg\<close>; \<open>s\<close> is the number of calls of \<open>Math.random\<close> made before.
\<close>

definition convertRoot :: "Env \<Rightarrow> Element \<Rightarrow> Rng \<Rightarrow> ExcalidrawDocument" where
  "convertRoot env rootEl s =
     (let context = \<lparr> styleContext = createStyleContext env rootEl \<rparr>;
          nodes = selectedNodes env rootEl
      in \<lparr> doc_type = ''excalidraw'', doc_version = 2, doc_source = EXCALIDRAW_SOURCE,
           doc_elements = fst (convertNodes env context nodes s) \<rparr>)"

definition convertSvgToExcalidraw :: "Env \<Rightarrow> string \<Rightarrow> Rng \<Rightarrow> error + ExcalidrawDocument" where
  "convertSvgToExcalidraw env svgMarkup s =
     (case parseSvg env svgMarkup of
        Inl err \<Rightarrow> Inl err
      | Inr rootEl \<Rightarrow> Inr (convertRoot env rootEl s))"

section \<open>Notions used in the statements and proofs\<close>

text \<open>
  The shoelace sum in exact arithmetic: the summand for the edge from \<open>p\<close> to \<open>q\<close>, the
  summand at an index, and the sum.
\<close>

definition edgeOf :: "Point \<Rightarrow> Point \<Rightarrow> real" where
  "edgeOf p q = (fst q - fst p) * (snd q + snd p)"

definition exactTerm :: "Point list \<Rightarrow> nat \<Rightarrow> real" where
  "exactTerm points index =
     edgeOf (pointAt points index) (pointAt points ((index + 1) mod length points))"

definition exactSum :: "Point list \<Rightarrow> real" where
  "exactSum points = sum_list (map (exactTerm points) [0..<length points])"

text \<open>
  Rounding to the nearest double, ties to even, on the normal range of binary64: a
  non-zero real with binary exponent \<open>e\<close> is rounded to the nearest multiple of
  \<open>2 ^ (e - 52)\<close>.  Overflow and the subnormal numbers are left out.
\<close>

definition roundHalfEven :: "real \<Rightarrow> int" where
  "roundHalfEven v =
     (let f = \<lfloor>v\<rfloor>; r = v - of_int f
      in if r < 1 / 2 then f else if r > 1 / 2 then f + 1
         else if even f then f else f + 1)"

definition normalRound :: Rounding where
  "normalRound v =
     (let e = \<lfloor>log 2 \<bar>v\<bar>\<rfloor>; ulp = 2 powr (of_int e - 52)
      in ulp * of_int (roundHalfEven (v / ulp)))"

definition binary64 :: Rounding where
  "binary64 v = (if v = 0 then 0 else normalRound v)"

text \<open>
  The edge of the reversed polygon at position \<open>i\<close> is the edge of the polygon at
  position \<open>mirrorIndex n i\<close>, walked backwards.
\<close>

definition mirrorIndex :: "nat \<Rightarrow> nat \<Rightarrow> nat" where
  "mirrorIndex n i = (if i = n - 1 then n - 1 else n - 2 - i)"

text \<open>
  The first subpath of largest area: the later one wins a comparison only when its area is
  strictly larger.
\<close>

fun firstLargest :: "PathSubpathData list \<Rightarrow> PathSubpathData option" where
  "firstLargest [] = None"
| "firstLargest (s # rest) =
     (case firstLargest rest of
        None \<Rightarrow> Some s
      | Some t \<Rightarrow> if sd_area t > sd_area s then Some t else Some s)"

text \<open>The winding of the first closed subpath of a list, if there is one.\<close>

definition firstClosedWinding :: "ConvertedPathSubpath list \<Rightarrow> WindingDirection option" where
  "firstClosedWinding subpaths =
     (case filter cp_isClosed subpaths of
        [] \<Rightarrow> None
      | c # _ \<Rightarrow> Some (cp_windingDirection c))"

text \<open>An element and its ancestors, innermost first.\<close>

fun selfAndAncestors :: "Element \<Rightarrow> Element list" where
  "selfAndAncestors (El t atts cs None) = [El t atts cs None]"
| "selfAndAncestors (El t atts cs (Some parent)) =
     El t atts cs (Some parent) # selfAndAncestors parent"

text \<open>The fields of an element that the statements about paths read.\<close>

definition elementSummary :: "ExcalidrawElement \<Rightarrow> ElementType \<times> string \<times> string list" where
  "elementSummary el = (el_type el, el_backgroundColor el, el_groupIds el)"

section \<open>Sample inputs\<close>

text \<open>
  Concrete libraries and trees on which the statements below are evaluated.  The path
  flattener knows three command strings: a small square followed by a large square around
  it, drawn in the opposite direction; an open segment; and \<open>L10 10\<close>, which has no moveto
  at its start and which the flattener of the package reads as if \<open>M0,0\<close> stood in front
  of it.  On everything else it throws.  No transform declaration parses, every random
  draw is 0, and the arithmetic rounds as binary64 does.
\<close>

definition innerSquare :: "Point list" where
  "innerSquare = [(4, 4), (6, 4), (6, 6), (4, 6), (4, 4)]"

definition outerSquare :: "Point list" where
  "outerSquare = [(0, 0), (0, 10), (10, 10), (10, 0), (0, 0)]"

definition samplePointsOnPath :: "string \<Rightarrow> error + Point list list" where
  "samplePointsOnPath d =
     (if d = ''M4 4H6V6H4ZM0 0V10H10V0Z'' then Inr [innerSquare, outerSquare]
      else if d = ''M0 0L10 0'' then Inr [[(0, 0), (10, 0)]]
      else if d = ''L10 10'' then Inr [[(0, 0), (10, 10)]]
      else Inl (Error ''Path data ended short''))"

definition sampleEnv :: Env where
  "sampleEnv =
     \<lparr> fround = binary64,
       parseFloat = map_of [(''0'', 0), (''2'', 2), (''10'', 10), (''-1'', - 1)],
       numbersIn = (\<lambda>pointsAttr. []),
       pointsOnPath = samplePointsOnPath,
       fromTransformAttribute = (\<lambda>t. Inl (Error ''SyntaxError'')),
       querySelectorId = (\<lambda>rootEl gradientId. None),
       Math_random = (\<lambda>n. 0),
       base36 = (\<lambda>r. ''a''),
       parseClassStyles = (\<lambda>rootEl className. None),
       parseFromString = (\<lambda>svgMarkup. (None, None)) \<rparr>"

text \<open>An element with the given tag and attributes, directly below an \<open>svg\<close> root.\<close>

definition svgAround :: "string \<Rightarrow> (string \<times> string) list \<Rightarrow> Element" where
  "svgAround t atts = El ''svg'' [] [ElementNode t atts []] None"

definition underSvg :: "string \<Rightarrow> (string \<times> string) list \<Rightarrow> Element" where
  "underSvg t atts = El t atts [] (Some (svgAround t atts))"

text \<open>The outermost ancestor of an element, and the converter context built from it.\<close>

fun rootOf :: "Element \<Rightarrow> Element" where
  "rootOf (El t atts cs None) = El t atts cs None"
| "rootOf (El t atts cs (Some parent)) = rootOf parent"

definition sampleContext :: "Element \<Rightarrow> ConverterContext" where
  "sampleContext element = \<lparr> styleContext = createStyleContext sampleEnv (rootOf element) \<rparr>"

text \<open>\<open><path fill="red" d="M4 4H6V6H4ZM0 0V10H10V0Z"/>\<close>: the hole comes first.\<close>

definition holeFirstPath :: Element where
  "holeFirstPath = underSvg ''path'' [(''fill'', ''red''), (''d'', ''M4 4H6V6H4ZM0 0V10H10V0Z'')]"

text \<open>The same path with \<open>fill-rule="evenodd"\<close> on it.\<close>

definition holeFirstEvenOdd :: Element where
  "holeFirstEvenOdd =
     underSvg ''path'' [(''fill'', ''red''), (''fill-rule'', ''evenodd''),
                        (''d'', ''M4 4H6V6H4ZM0 0V10H10V0Z'')]"

text \<open>The two subpaths that both paths decompose into: the small square is the hole.\<close>

definition squareSubpaths :: "ConvertedPathSubpath list" where
  "squareSubpaths =
     [\<lparr> cp_x = 4, cp_y = 4, cp_width = 2, cp_height = 2,
        cp_relativePoints = [(0, 0), (2, 0), (2, 2), (0, 2), (0, 0)],
        cp_isHole = True, cp_windingDirection = CounterClockwise, cp_isClosed = True \<rparr>,
      \<lparr> cp_x = 0, cp_y = 0, cp_width = 10, cp_height = 10,
        cp_relativePoints = [(0, 0), (0, 10), (10, 10), (10, 0), (0, 0)],
        cp_isHole = False, cp_windingDirection = Clockwise, cp_isClosed = True \<rparr>]"


definition strokedPath :: Element where
  "strokedPath =
     underSvg ''path'' [(''stroke'', ''red''), (''stroke-width'', ''2''), (''d'', ''M0 0L10 0'')]"

text \<open>\<open><svg><clipPath><rect width="10" height="10"/></clipPath></svg>\<close>.\<close>

definition clipTree :: Element where
  "clipTree =
     El ''svg'' []
       [ElementNode ''clipPath'' []
          [ElementNode ''rect'' [(''width'', ''10''), (''height'', ''10'')] []]] None"

text \<open>\<open><svg><g fill="red" style="fill: blue"><rect/></g></svg>\<close>, and its \<open>rect\<close>.\<close>

definition styledGroup :: Element where
  "styledGroup =
     El ''g'' [(''fill'', ''red''), (''style'', ''fill: blue'')] [ElementNode ''rect'' [] []]
       (Some (El ''svg'' []
                [ElementNode ''g'' [(''fill'', ''red''), (''style'', ''fill: blue'')]
                   [ElementNode ''rect'' [] []]] None))"

definition rectInGroup :: Element where
  "rectInGroup = El ''rect'' [] [] (Some styledGroup)"

text \<open>The \<open>rect\<close> of \<open>clipTree\<close>, as \<open>querySelectorAll\<close> hands it to the filter.\<close>

definition clipRect :: Element where
  "clipRect =
     El ''rect'' [(''width'', ''10''), (''height'', ''10'')] []
       (Some (El ''clipPath'' []
                [ElementNode ''rect'' [(''width'', ''10''), (''height'', ''10'')] []]
                (Some clipTree)))"

text \<open>
  \<open><rect width="0" height="10"/>\<close>, \<open><circle r="-1"/>\<close> and
  \<open><ellipse rx="10" ry="0"/>\<close>.
\<close>

definition flatRect :: Element where
  "flatRect = underSvg ''rect'' [(''width'', ''0''), (''height'', ''10'')]"

definition negativeCircle :: Element where
  "negativeCircle = underSvg ''circle'' [(''r'', ''-1'')]"

definition flatEllipse :: Element where
  "flatEllipse = underSvg ''ellipse'' [(''rx'', ''10''), (''ry'', ''0'')]"

text \<open>\<open><path transform="rotate(" d="M"/>\<close>: neither declaration parses.\<close>

definition brokenPath :: Element where
  "brokenPath = underSvg ''path'' [(''transform'', ''rotate(''), (''d'', ''M'')]"

text \<open>\<open><path stroke="red" d="L10 10"/>\<close>: a command string without its moveto.\<close>

definition movelessPath :: Element where
  "movelessPath = underSvg ''path'' [(''stroke'', ''red''), (''d'', ''L10 10'')]"

section \<open>Evaluation\<close>

text \<open>
  The closedness test compares a square root with a positive bound; squaring both sides
  gives the form that is evaluated on concrete points.
\<close>

lemma hypot_less_iff: "0 < bound \<Longrightarrow> hypot dx dy < bound \<longleftrightarrow> dx * dx + dy * dy < bound * bound"
proof -
  assume pos: "0 < bound"
  have nonneg: "0 \<le> dx * dx + dy * dy" by simp
  have "sqrt (dx * dx + dy * dy) < bound \<longleftrightarrow> sqrt (dx * dx + dy * dy) < sqrt (bound * bound)"
    using pos by simp
  also have "\<dots> \<longleftrightarrow> dx * dx + dy * dy < bound * bound"
    by (rule real_sqrt_less_iff)
  finally show ?thesis by (simp add: hypot_def)
qed

lemma hypot_milli: "(hypot dx dy < 1 / 1000) = (dx * dx + dy * dy < 1 / 1000000)"
  using hypot_less_iff [of "1 / 1000" dx dy] by simp

lemma isClosedSubpath_code [code]:
  "isClosedSubpath points =
     (if length points < 2 then False
      else (case pointAt points 0 of (firstX, firstY) \<Rightarrow>
            case pointAt points (length points - 1) of (lastX, lastY) \<Rightarrow>
              (lastX - firstX) * (lastX - firstX) + (lastY - firstY) * (lastY - firstY)
                < 1 / 1000000))"
  unfolding isClosedSubpath_def hypot_milli ..


section \<open>Rounding\<close>

text \<open>
  The rounding of binary64 keeps every integer of magnitude at most \<open>2 ^ 53\<close>.
\<close>

lemma roundHalfEven_int: "roundHalfEven (of_int m) = m"
  by (simp add: roundHalfEven_def Let_def)

lemma ulp_below:
  fixes e :: int
  assumes "e < 52"
  shows "(2::real) powr (of_int e - 52) = 1 / 2 ^ nat (52 - e)"
proof -
  have "(2::real) powr (of_int e - 52) = 2 powr (of_int (e - 52))" by simp
  also have "\<dots> = 1 / 2 ^ nat (- (e - 52))"
    using assms by (simp only: powr_int [of 2 "e - 52"]) simp
  also have "- (e - 52) = 52 - e" by simp
  finally show ?thesis .
qed

lemma binary64_int:
  assumes "\<bar>k\<bar> \<le> 2 ^ 53"
  shows "binary64 (of_int k) = of_int k"
proof (cases "k = 0")
  case True
  then show ?thesis by (simp add: binary64_def)
next
  case False
  define x :: real where "x = \<bar>of_int k\<bar>"
  define e where "e = \<lfloor>log 2 x\<rfloor>"
  define ulp :: real where "ulp = 2 powr (of_int e - 52)"
  have xk: "x = of_int \<bar>k\<bar>" by (simp add: x_def)
  have x1: "1 \<le> x" using False by (simp add: x_def)
  have xu: "x \<le> 2 ^ 53"
  proof -
    have "(of_int \<bar>k\<bar> :: real) \<le> of_int (2 ^ 53)" using assms by (simp only: of_int_le_iff)
    then show ?thesis by (simp add: xk)
  qed
  have ulp_pos: "0 < ulp" by (simp add: ulp_def)
  have bounds: "2 powr (of_int e) \<le> x \<and> x < 2 powr (of_int (e + 1))"
    using floor_log_eq_powr_iff [of x 2 e] x1 by (simp add: e_def)
  have int_quot: "\<exists>m::int. of_int k / ulp = of_int m"
  proof -
    consider "e < 52" | "e = 52" | "53 \<le> e" by linarith
    then show ?thesis
    proof cases
      case 1
      then have "ulp = 1 / 2 ^ nat (52 - e)" unfolding ulp_def by (rule ulp_below)
      then have "of_int k / ulp = of_int (k * 2 ^ nat (52 - e))" by simp
      then show ?thesis by blast
    next
      case 2
      then have "ulp = 1" by (simp add: ulp_def)
      then have "of_int k / ulp = of_int k" by simp
      then show ?thesis by blast
    next
      case 3
      have p53: "(2::real) powr (real_of_int 53) = 2 ^ 53" by simp
      have "(2::real) powr (real_of_int 53) \<le> 2 powr (real_of_int e)"
        using 3 by (subst powr_le_cancel_iff) simp_all
      with bounds p53 have "(2::real) ^ 53 \<le> x" by linarith
      with xu have x53: "x = 2 ^ 53" by linarith
      with bounds p53 have "(2::real) powr (real_of_int e) \<le> 2 powr (real_of_int 53)"
        by linarith
      then have "real_of_int e \<le> real_of_int 53"
        by (subst (asm) powr_le_cancel_iff) simp_all
      then have "e \<le> 53" by linarith
      with 3 have e53: "e = 53" by simp
      then have u2: "ulp = 2" by (simp add: ulp_def)
      from x53 xk have "(of_int \<bar>k\<bar> :: real) = of_int (2 ^ 53)" by simp
      then have "\<bar>k\<bar> = 2 ^ 53" by (simp only: of_int_eq_iff)
      then have "k = 2 ^ 53 \<or> k = - (2 ^ 53)" by linarith
      then have "k = 2 * 2 ^ 52 \<or> k = 2 * (- (2 ^ 52))" by simp
      then obtain h :: int where "k = 2 * h" by blast
      with u2 have "of_int k / ulp = of_int h" by simp
      then show ?thesis by blast
    qed
  qed
  then obtain m :: int where m: "of_int k / ulp = of_int m" by blast
  have "binary64 (of_int k) = ulp * of_int (roundHalfEven (of_int k / ulp))"
    using False by (simp add: binary64_def normalRound_def Let_def ulp_def e_def x_def)
  also have "\<dots> = ulp * of_int m" by (simp only: m roundHalfEven_int)
  also have "\<dots> = of_int k" using m ulp_pos by (simp add: field_simps)
  finally show ?thesis .
qed


text \<open>
  On such integers the rounding is evaluated by this equation; the general case is kept
  out of the evaluation.
\<close>

declare normalRound_def [code del]

lemma binary64_small:
  "binary64 v = (if of_int \<lfloor>v\<rfloor> = v \<and> \<bar>v\<bar> \<le> 2 ^ 53 then v else normalRound v)"
proof (cases "of_int \<lfloor>v\<rfloor> = v \<and> \<bar>v\<bar> \<le> 2 ^ 53")
  case True
  then have v: "of_int \<lfloor>v\<rfloor> = v" and small: "\<bar>v\<bar> \<le> 2 ^ 53" by blast+
  from small have "\<bar>of_int \<lfloor>v\<rfloor> :: real\<bar> \<le> 2 ^ 53" by (simp only: v)
  then have "(of_int \<bar>\<lfloor>v\<rfloor>\<bar> :: real) \<le> of_int (2 ^ 53)" by simp
  then have "\<bar>\<lfloor>v\<rfloor>\<bar> \<le> 2 ^ 53" by (simp only: of_int_le_iff)
  then have "binary64 (of_int \<lfloor>v\<rfloor>) = of_int \<lfloor>v\<rfloor>" by (rule binary64_int)
  then have "binary64 v = v" by (simp only: v)
  with True show ?thesis by simp
next
  case False
  then have "v \<noteq> 0" by auto
  then have "binary64 v = normalRound v" by (simp add: binary64_def)
  with False show ?thesis by (simp only: if_False)
qed

lemma binary64_code [code]:
  "binary64 v =
     (if \<bar>v\<bar> \<le> 9007199254740992 \<and> of_int \<lfloor>v\<rfloor> = v then v else normalRound v)"
  using binary64_small [of v] by (simp add: conj_commute)

section \<open>Winding and reversal\<close>

lemma edgeOf_flip: "edgeOf q p = - edgeOf p q"
  by (simp add: edgeOf_def algebra_simps)

lemma exactTerm_nth:
  assumes "i < length ps"
  shows "exactTerm ps i = edgeOf (ps ! i) (ps ! ((i + 1) mod length ps))"
proof -
  from assms have "0 < length ps" by (cases ps) simp_all
  then have "(i + 1) mod length ps < length ps" by (rule mod_less_divisor)
  with assms show ?thesis by (simp add: exactTerm_def pointAt_def)
qed

lemma rounding_exact:
  fixes rnd :: Rounding and v :: real
  assumes "\<forall>k::int. \<bar>k\<bar> \<le> 2 ^ 53 \<longrightarrow> rnd (of_int k) = of_int k"
      and "v \<in> \<int>" and "\<bar>v\<bar> \<le> 2 ^ 53"
  shows "rnd v = v"
proof -
  from assms(2) obtain k :: int where k: "v = of_int k" by (rule Ints_cases)
  with assms(3) have "(of_int \<bar>k\<bar> :: real) \<le> of_int (2 ^ 53)" by simp
  then have "\<bar>k\<bar> \<le> 2 ^ 53" by (simp only: of_int_le_iff)
  with assms(1) k show ?thesis by simp
qed

lemma edgeTerm_exact:
  fixes B :: nat and rnd :: Rounding
  assumes exact: "\<forall>k::int. \<bar>k\<bar> \<le> 2 ^ 53 \<longrightarrow> rnd (of_int k) = of_int k"
      and coords: "\<forall>p \<in> set points.
                     fst p \<in> \<int> \<and> snd p \<in> \<int> \<and> \<bar>fst p\<bar> \<le> real B \<and> \<bar>snd p\<bar> \<le> real B"
      and i: "i < length points"
      and bound: "4 * real B * real B \<le> 2 ^ 53"
  shows "edgeTerm rnd points i = exactTerm points i \<and> exactTerm points i \<in> \<int> \<and>
         \<bar>exactTerm points i\<bar> \<le> 4 * real B * real B"
proof -
  from i have "0 < length points" by (cases points) simp_all
  then have j: "(i + 1) mod length points < length points" by (rule mod_less_divisor)
  define p where "p = points ! i"
  define q where "q = points ! ((i + 1) mod length points)"
  have pin: "p \<in> set points" and qin: "q \<in> set points"
    using i j by (simp_all add: p_def q_def)
  from coords pin have p: "fst p \<in> \<int>" "snd p \<in> \<int>" "\<bar>fst p\<bar> \<le> real B" "\<bar>snd p\<bar> \<le> real B"
    by blast+
  from coords qin have q: "fst q \<in> \<int>" "snd q \<in> \<int>" "\<bar>fst q\<bar> \<le> real B" "\<bar>snd q\<bar> \<le> real B"
    by blast+
  define dx where "dx = fst q - fst p"
  define sy where "sy = snd q + snd p"
  have dxZ: "dx \<in> \<int>" and syZ: "sy \<in> \<int>" using p q by (simp_all add: dx_def sy_def)
  have dxB: "\<bar>dx\<bar> \<le> 2 * real B" and syB: "\<bar>sy\<bar> \<le> 2 * real B"
    using p q by (simp_all add: dx_def sy_def)
  have twoB: "2 * real B \<le> 4 * real B * real B"
  proof (cases "B = 0")
    case True then show ?thesis by simp
  next
    case False
    then have "1 \<le> real B" by simp
    then have "real B * 1 \<le> real B * real B" by (intro mult_left_mono) simp_all
    then show ?thesis by simp
  qed
  have prodB: "\<bar>dx * sy\<bar> \<le> 4 * real B * real B"
  proof -
    have "\<bar>dx\<bar> * \<bar>sy\<bar> \<le> (2 * real B) * (2 * real B)"
      using dxB syB by (intro mult_mono) simp_all
    then show ?thesis by (simp add: abs_mult)
  qed
  have r1: "rnd dx = dx" using exact dxZ dxB twoB bound by (intro rounding_exact) simp_all
  have r2: "rnd sy = sy" using exact syZ syB twoB bound by (intro rounding_exact) simp_all
  have r3: "rnd (dx * sy) = dx * sy"
    using exact dxZ syZ prodB bound by (intro rounding_exact) simp_all
  have et: "exactTerm points i = dx * sy"
    using i by (simp add: exactTerm_nth edgeOf_def p_def q_def dx_def sy_def)
  have "edgeTerm rnd points i = rnd (rnd dx * rnd sy)"
    using i j by (simp add: edgeTerm_def pointAt_def p_def q_def dx_def sy_def
                       split: prod.splits)
  with r1 r2 r3 have "edgeTerm rnd points i = dx * sy" by simp
  with et dxZ syZ prodB show ?thesis by simp
qed

lemma rounded_fold_exact:
  fixes T :: real and rnd :: Rounding
  assumes exact: "\<forall>k::int. \<bar>k\<bar> \<le> 2 ^ 53 \<longrightarrow> rnd (of_int k) = of_int k"
      and terms: "\<forall>i \<in> set idxs. f i = g i \<and> g i \<in> \<int> \<and> \<bar>g i\<bar> \<le> T"
      and acc: "acc \<in> \<int>"
      and room: "\<bar>acc\<bar> + T * real (length idxs) \<le> 2 ^ 53"
  shows "foldl (\<lambda>sum i. rnd (sum + f i)) acc idxs = acc + sum_list (map g idxs)"
  using terms acc room
proof (induction idxs arbitrary: acc)
  case Nil
  then show ?case by simp
next
  case (Cons i rest)
  from Cons.prems(1) have fi: "f i = g i" "g i \<in> \<int>" "\<bar>g i\<bar> \<le> T" by simp_all
  from Cons.prems(1) have rest: "\<forall>j \<in> set rest. f j = g j \<and> g j \<in> \<int> \<and> \<bar>g j\<bar> \<le> T"
    by simp
  have T0: "0 \<le> T" using fi(3) by linarith
  have step: "\<bar>acc + g i\<bar> + T * real (length rest) \<le> 2 ^ 53"
  proof -
    have "\<bar>acc + g i\<bar> \<le> \<bar>acc\<bar> + T" using fi(3) by linarith
    moreover have "\<bar>acc\<bar> + T * real (length (i # rest)) = \<bar>acc\<bar> + T + T * real (length rest)"
      by (simp add: algebra_simps)
    ultimately show ?thesis using Cons.prems(3) by linarith
  qed
  have "0 \<le> T * real (length rest)" using T0 by simp
  with step have small: "\<bar>acc + g i\<bar> \<le> 2 ^ 53" by linarith
  have inZ: "acc + g i \<in> \<int>" using Cons.prems(2) fi(2) by simp
  have r: "rnd (acc + g i) = acc + g i" using exact inZ small by (rule rounding_exact)
  have "foldl (\<lambda>sum i. rnd (sum + f i)) acc (i # rest) =
          foldl (\<lambda>sum i. rnd (sum + f i)) (acc + g i) rest"
    by (simp add: fi(1) r)
  also have "\<dots> = (acc + g i) + sum_list (map g rest)"
    using rest inZ step by (rule Cons.IH)
  finally show ?case by simp
qed

lemma shoelaceSum_exact:
  fixes B :: nat and rnd :: Rounding
  assumes exact: "\<forall>k::int. \<bar>k\<bar> \<le> 2 ^ 53 \<longrightarrow> rnd (of_int k) = of_int k"
      and coords: "\<forall>p \<in> set points.
                     fst p \<in> \<int> \<and> snd p \<in> \<int> \<and> \<bar>fst p\<bar> \<le> real B \<and> \<bar>snd p\<bar> \<le> real B"
      and bound: "4 * length points * B * B \<le> 2 ^ 53"
  shows "shoelaceSum rnd points = exactSum points"
proof (cases "points = []")
  case True
  then show ?thesis by (simp add: shoelaceSum_def exactSum_def)
next
  case False
  then have n1: "1 \<le> length points" by (cases points) simp_all
  let ?T = "4 * real B * real B"
  have total: "?T * real (length points) \<le> 2 ^ 53"
  proof -
    have "real (4 * length points * B * B) \<le> real (2 ^ 53)"
      using bound by (simp only: of_nat_le_iff)
    then show ?thesis by (simp add: algebra_simps)
  qed
  have one: "?T \<le> 2 ^ 53"
  proof -
    have "?T * 1 \<le> ?T * real (length points)"
      using n1 by (intro mult_left_mono) simp_all
    with total show ?thesis by simp
  qed
  have terms: "\<forall>i \<in> set [0..<length points].
                 edgeTerm rnd points i = exactTerm points i \<and> exactTerm points i \<in> \<int> \<and>
                 \<bar>exactTerm points i\<bar> \<le> ?T"
    using edgeTerm_exact [OF exact coords _ one] by simp
  have room: "\<bar>0::real\<bar> + ?T * real (length [0..<length points]) \<le> 2 ^ 53"
    using total by simp
  have "foldl (\<lambda>sum i. rnd (sum + edgeTerm rnd points i)) 0 [0..<length points] =
          0 + sum_list (map (exactTerm points) [0..<length points])"
    using exact terms _ room by (rule rounded_fold_exact) simp
  then show ?thesis by (simp add: shoelaceSum_def exactSum_def)
qed

lemma mirrorIndex_less: "i < n \<Longrightarrow> mirrorIndex n i < n"
  by (auto simp: mirrorIndex_def)

lemma mirrorIndex_invol: "i < n \<Longrightarrow> mirrorIndex n (mirrorIndex n i) = i"
  by (auto simp: mirrorIndex_def)

lemma exactTerm_rev:
  assumes "i < length ps"
  shows "exactTerm (rev ps) i = - exactTerm ps (mirrorIndex (length ps) i)"
proof (cases "i = length ps - 1")
  case True
  from assms have pos: "0 < length ps" by (cases ps) simp_all
  with True have "Suc i = length ps" by simp
  then have m: "Suc i mod length ps = 0" by (simp only: mod_self)
  from pos True have ri: "rev ps ! i = ps ! 0" by (simp add: rev_nth)
  from pos have r0: "rev ps ! 0 = ps ! (length ps - 1)" by (simp add: rev_nth)
  have "exactTerm (rev ps) i = edgeOf (rev ps ! i) (rev ps ! (Suc i mod length ps))"
    using assms exactTerm_nth [of i "rev ps"] by simp
  then have "exactTerm (rev ps) i = edgeOf (ps ! 0) (ps ! (length ps - 1))"
    by (simp only: m ri r0)
  moreover have "exactTerm ps (mirrorIndex (length ps) i) = edgeOf (ps ! (length ps - 1)) (ps ! 0)"
  proof -
    have a: "mirrorIndex (length ps) i = i" using True by (simp add: mirrorIndex_def)
    have b: "exactTerm ps i = edgeOf (ps ! i) (ps ! 0)"
      using assms exactTerm_nth [of i ps] m by simp
    have c: "ps ! i = ps ! (length ps - 1)" using True by simp
    show ?thesis by (simp only: a b c)
  qed
  ultimately show ?thesis by (metis edgeOf_flip)
next
  case False
  with assms have lt: "i + 1 < length ps" by simp
  then have "exactTerm (rev ps) i =
      edgeOf (ps ! (length ps - 1 - i)) (ps ! (length ps - 2 - i))"
    using assms by (simp add: exactTerm_nth rev_nth)
  moreover have "exactTerm ps (mirrorIndex (length ps) i) =
      edgeOf (ps ! (length ps - 2 - i)) (ps ! (length ps - 1 - i))"
  proof -
    have a: "length ps - 2 - i < length ps" using lt by simp
    have b: "(length ps - 2 - i + 1) mod length ps = length ps - 1 - i" using lt by simp
    show ?thesis using False a b by (simp add: exactTerm_nth mirrorIndex_def)
  qed
  ultimately show ?thesis by (metis edgeOf_flip)
qed

lemma exactSum_set: "exactSum ps = (\<Sum>i<length ps. exactTerm ps i)"
  unfolding exactSum_def by (simp add: interv_sum_list_conv_sum_set_nat atLeast0LessThan)

lemma exactSum_rev: "exactSum (rev ps) = - exactSum ps"
proof -
  let ?n = "length ps"
  have "(\<Sum>i<?n. exactTerm (rev ps) i) = (\<Sum>i<?n. - exactTerm ps (mirrorIndex ?n i))"
    by (rule sum.cong) (simp_all add: exactTerm_rev)
  also have "\<dots> = (\<Sum>j<?n. - exactTerm ps j)"
    by (rule sum.reindex_bij_witness [of _ "mirrorIndex ?n" "mirrorIndex ?n"])
       (simp_all add: mirrorIndex_less mirrorIndex_invol)
  also have "\<dots> = - (\<Sum>j<?n. exactTerm ps j)"
    by (simp add: sum_negf)
  finally show ?thesis by (simp add: exactSum_set)
qed


text \<open>
  C6 (as amended).  The winding is clockwise exactly when the raw shoelace sum that the
  loop computes is positive.  On a point sequence whose coordinates are integers of
  magnitude at most \<open>B\<close> with \<open>4 * length * B * B \<le> 2 ^ 53\<close>, every operation of the loop
  is exact in a runtime whose rounding keeps the integers up to \<open>2 ^ 53\<close>, as binary64
  does; there reversing the sequence negates the sum, so it flips the reported winding
  when the sum is not zero, and a sequence whose sum is zero is reported counter-clockwise
  in both orders.
\<close>

theorem winding_reverse_flips:
  fixes B :: nat and rnd :: Rounding
  shows "(direction (getWindingOrder rnd points) = Clockwise
            \<longleftrightarrow> signedArea (getWindingOrder rnd points) > 0) \<and>
         signedArea (getWindingOrder rnd points) = shoelaceSum rnd points \<and>
         ((\<forall>k::int. \<bar>k\<bar> \<le> 2 ^ 53 \<longrightarrow> rnd (of_int k) = of_int k) \<and>
          (\<forall>p \<in> set points.
             fst p \<in> \<int> \<and> snd p \<in> \<int> \<and> \<bar>fst p\<bar> \<le> real B \<and> \<bar>snd p\<bar> \<le> real B) \<and>
          4 * length points * B * B \<le> 2 ^ 53 \<longrightarrow>
            signedArea (getWindingOrder rnd (rev points))
              = - signedArea (getWindingOrder rnd points) \<and>
            (shoelaceSum rnd points \<noteq> 0 \<longrightarrow>
               direction (getWindingOrder rnd (rev points))
                 \<noteq> direction (getWindingOrder rnd points)) \<and>
            (shoelaceSum rnd points = 0 \<longrightarrow>
               direction (getWindingOrder rnd (rev points)) = CounterClockwise \<and>
               direction (getWindingOrder rnd points) = CounterClockwise))"
proof -
  have neg: "shoelaceSum rnd (rev points) = - shoelaceSum rnd points"
    if exact: "\<forall>k::int. \<bar>k\<bar> \<le> 2 ^ 53 \<longrightarrow> rnd (of_int k) = of_int k"
      and coords: "\<forall>p \<in> set points.
             fst p \<in> \<int> \<and> snd p \<in> \<int> \<and> \<bar>fst p\<bar> \<le> real B \<and> \<bar>snd p\<bar> \<le> real B"
      and bound: "4 * length points * B * B \<le> 2 ^ 53"
  proof -
    have fwd: "shoelaceSum rnd points = exactSum points"
      using exact coords bound by (rule shoelaceSum_exact)
    have coords': "\<forall>p \<in> set (rev points).
             fst p \<in> \<int> \<and> snd p \<in> \<int> \<and> \<bar>fst p\<bar> \<le> real B \<and> \<bar>snd p\<bar> \<le> real B"
      using coords by simp
    have bound': "4 * length (rev points) * B * B \<le> 2 ^ 53" using bound by simp
    have "shoelaceSum rnd (rev points) = exactSum (rev points)"
      using exact coords' bound' by (rule shoelaceSum_exact)
    with fwd show ?thesis by (simp add: exactSum_rev)
  qed
  show ?thesis
    using neg by (auto simp: getWindingOrder_def Let_def)
qed

lemma binary64_exact: "\<forall>k::int. \<bar>k\<bar> \<le> 2 ^ 53 \<longrightarrow> binary64 (of_int k) = of_int k"
  using binary64_int by blast

lemma triangle_exactSum: "exactSum [(0, 0), (1, 0), (1, 1)] = - 1"
  by (simp add: exactSum_def exactTerm_def edgeOf_def pointAt_def upt_rec)

lemma triangle_sum: "shoelaceSum binary64 [(0, 0), (1, 0), (1, 1)] = - 1"
proof -
  have "shoelaceSum binary64 [(0, 0), (1, 0), (1, 1)] = exactSum [(0, 0), (1, 0), (1, 1)]"
    using binary64_exact by (rule shoelaceSum_exact [where B = 1]) simp_all
  then show ?thesis by (simp only: triangle_exactSum)
qed

text \<open>
  A triangle with corners 0 and 1, under the rounding of binary64: the sum is -1, the
  triangle is counter-clockwise and its reverse clockwise.
\<close>

theorem winding_reverse_flips_witness:
  "shoelaceSum binary64 [(0, 0), (1, 0), (1, 1)] = - 1 \<and>
   direction (getWindingOrder binary64 (rev [(0, 0), (1, 0), (1, 1)])) = Clockwise \<and>
   direction (getWindingOrder binary64 [(0, 0), (1, 0), (1, 1)]) = CounterClockwise"
proof -
  let ?tri = "[(0, 0), (1, 0), (1, 1)] :: Point list"
  have coords: "\<forall>p \<in> set ?tri.
             fst p \<in> \<int> \<and> snd p \<in> \<int> \<and> \<bar>fst p\<bar> \<le> real (1::nat) \<and> \<bar>snd p\<bar> \<le> real (1::nat)"
    by simp
  have bound: "4 * length ?tri * (1::nat) * 1 \<le> 2 ^ 53" by simp
  from winding_reverse_flips [of binary64 ?tri 1] binary64_exact coords bound
  have "signedArea (getWindingOrder binary64 (rev ?tri))
          = - signedArea (getWindingOrder binary64 ?tri)"
    and "signedArea (getWindingOrder binary64 ?tri) = shoelaceSum binary64 ?tri"
    by blast+
  then have "signedArea (getWindingOrder binary64 (rev ?tri)) = 1"
    by (simp add: triangle_sum)
  then have "shoelaceSum binary64 (rev ?tri) = 1"
    by (simp add: getWindingOrder_def Let_def)
  then show ?thesis
    using triangle_sum by (simp add: getWindingOrder_def Let_def)
qed

lemma collinear_exactSum:
  "exactSum [(0, 0), (1, 1), (2, 2)] = 0 \<and> exactSum (rev [(0, 0), (1, 1), (2, 2)]) = 0"
  by (simp add: exactSum_def exactTerm_def edgeOf_def pointAt_def upt_rec)

text \<open>
  C6 as stated fails on three collinear points with small integer coordinates, on which
  the arithmetic of the loop is exact: the sum is 0 in both orders, and the sequence and
  its reverse both report counter-clockwise.
\<close>

theorem winding_reverse_counterexample:
  "shoelaceSum binary64 [(0, 0), (1, 1), (2, 2)] = 0 \<and>
   shoelaceSum binary64 (rev [(0, 0), (1, 1), (2, 2)]) = 0 \<and>
   direction (getWindingOrder binary64 [(0, 0), (1, 1), (2, 2)]) = CounterClockwise \<and>
   direction (getWindingOrder binary64 (rev [(0, 0), (1, 1), (2, 2)])) = CounterClockwise"
proof -
  have a: "shoelaceSum binary64 [(0, 0), (1, 1), (2, 2)] = exactSum [(0, 0), (1, 1), (2, 2)]"
    using binary64_exact by (rule shoelaceSum_exact [where B = 2]) simp_all
  have b: "shoelaceSum binary64 (rev [(0, 0), (1, 1), (2, 2)])
             = exactSum (rev [(0, 0), (1, 1), (2, 2)])"
    using binary64_exact by (rule shoelaceSum_exact [where B = 2]) simp_all
  from a b collinear_exactSum show ?thesis
    by (simp add: getWindingOrder_def Let_def)
qed

section \<open>The sample path\<close>

lemma transformPoints_identity: "transformPoints points identity = points"
  by (induction points) (simp_all add: transformPoints_def transformPoint_def applyToPoint_def identity_def)

lemma winding_inner:
  "getWindingOrder binary64 [(0, 0), (2, 0), (2, 2), (0, 2), (0, 0)]
     = \<lparr> direction = CounterClockwise, signedArea = - 8 \<rparr>"
  by code_simp

lemma winding_outer:
  "getWindingOrder binary64 [(0, 0), (0, 10), (10, 10), (10, 0), (0, 0)]
     = \<lparr> direction = Clockwise, signedArea = 200 \<rparr>"
  by code_simp

lemma area_inner: "getPolygonArea binary64 [(0, 0), (2, 0), (2, 2), (0, 2), (0, 0)] = 4"
  by code_simp

lemma area_outer: "getPolygonArea binary64 [(0, 0), (0, 10), (10, 10), (10, 0), (0, 0)] = 100"
  by code_simp

lemma sample_inner:
  "subpathData binary64 0 innerSquare identity =
     \<lparr> sd_index = 0, sd_x = 4, sd_y = 4, sd_width = 2, sd_height = 2,
       sd_relativePoints = [(0, 0), (2, 0), (2, 2), (0, 2), (0, 0)],
       sd_bbox = \<lparr> minX = 4, minY = 4, maxX = 6, maxY = 6 \<rparr>, sd_area = 4,
       sd_windingDirection = CounterClockwise, sd_isHole = False \<rparr>"
  by (simp add: subpathData_def innerSquare_def Let_def transformPoints_identity
      pointAt_def area_inner winding_inner getBoundingBox_def
      dimensionsFromPoints_def minOver_def maxOver_def)

lemma sample_outer:
  "subpathData binary64 1 outerSquare identity =
     \<lparr> sd_index = 1, sd_x = 0, sd_y = 0, sd_width = 10, sd_height = 10,
       sd_relativePoints = [(0, 0), (0, 10), (10, 10), (10, 0), (0, 0)],
       sd_bbox = \<lparr> minX = 0, minY = 0, maxX = 10, maxY = 10 \<rparr>, sd_area = 100,
       sd_windingDirection = Clockwise, sd_isHole = False \<rparr>"
  by (simp add: subpathData_def outerSquare_def Let_def transformPoints_identity
      pointAt_def area_outer winding_outer getBoundingBox_def
      dimensionsFromPoints_def minOver_def maxOver_def)

lemma sample_subpathData:
  "buildSubpathData binary64 [innerSquare, outerSquare] identity =
     [subpathData binary64 0 innerSquare identity, subpathData binary64 1 outerSquare identity]"
  by (simp add: buildSubpathData_def innerSquare_def outerSquare_def upt_rec)

section \<open>Hole classification\<close>

lemma insertByArea_hd:
  "insertByArea s ts = (case ts of [] \<Rightarrow> [s] | t # rest \<Rightarrow>
      if sd_area t > sd_area s then t # insertByArea s rest else s # ts)"
  by (cases ts) simp_all

lemma insertByArea_nonempty: "insertByArea s ts \<noteq> []"
  by (cases ts) simp_all

lemma sortByArea_Cons: "sortByArea (s # rest) = insertByArea s (sortByArea rest)"
  by (simp add: sortByArea_def)

lemma sortByArea_Nil: "sortByArea [] = []"
  by (simp add: sortByArea_def)

lemma sortByArea_head:
  "(case sortByArea subpaths of [] \<Rightarrow> None | t # _ \<Rightarrow> Some t) = firstLargest subpaths"
proof (induction subpaths)
  case Nil
  show ?case by (simp add: sortByArea_Nil)
next
  case (Cons s rest)
  show ?case
  proof (cases "sortByArea rest")
    case Nil
    with Cons show ?thesis by (simp add: sortByArea_Cons)
  next
    case (Cons t ts)
    with Cons.IH have "firstLargest rest = Some t" by simp
    with Cons show ?thesis by (simp add: sortByArea_Cons)
  qed
qed

lemma firstLargest_in_set: "firstLargest subpaths = Some t \<Longrightarrow> t \<in> set subpaths"
  by (induction subpaths arbitrary: t) (auto split: option.splits if_splits)

lemma firstLargest_nth:
  assumes "k < length subpaths"
      and "\<forall>j < length subpaths. sd_area (subpaths ! j) \<le> sd_area (subpaths ! k)"
      and "\<forall>j < k. sd_area (subpaths ! j) < sd_area (subpaths ! k)"
  shows "firstLargest subpaths = Some (subpaths ! k)"
  using assms
proof (induction subpaths arbitrary: k)
  case Nil
  then show ?case by simp
next
  case (Cons s rest)
  show ?case
  proof (cases k)
    case 0
    show ?thesis
    proof (cases "firstLargest rest")
      case None
      with 0 show ?thesis by simp
    next
      case (Some t)
      then have "t \<in> set rest" by (rule firstLargest_in_set)
      then obtain j where j: "j < length rest" "rest ! j = t"
        by (auto simp: in_set_conv_nth)
      from Cons.prems(2) j(1) have "sd_area ((s # rest) ! Suc j) \<le> sd_area ((s # rest) ! k)"
        by auto
      with 0 j(2) have "sd_area t \<le> sd_area s" by simp
      with Some 0 show ?thesis by simp
    qed
  next
    case (Suc k')
    have k': "k' < length rest" using Cons.prems(1) Suc by simp
    have le: "\<forall>j < length rest. sd_area (rest ! j) \<le> sd_area (rest ! k')"
    proof (intro allI impI)
      fix j assume "j < length rest"
      with Cons.prems(2) have "sd_area ((s # rest) ! Suc j) \<le> sd_area ((s # rest) ! k)"
        by auto
      with Suc show "sd_area (rest ! j) \<le> sd_area (rest ! k')" by simp
    qed
    have lt: "\<forall>j < k'. sd_area (rest ! j) < sd_area (rest ! k')"
    proof (intro allI impI)
      fix j assume "j < k'"
      with Cons.prems(3) Suc have "sd_area ((s # rest) ! Suc j) < sd_area ((s # rest) ! k)"
        by auto
      with Suc show "sd_area (rest ! j) < sd_area (rest ! k')" by simp
    qed
    from Cons.IH [OF k' le lt] have fl: "firstLargest rest = Some (rest ! k')" .
    from Cons.prems(3) Suc have "sd_area ((s # rest) ! 0) < sd_area ((s # rest) ! k)"
      by blast
    with Suc have "sd_area s < sd_area (rest ! k')" by simp
    with fl Suc show ?thesis by simp
  qed
qed

lemma largestIndex_firstLargest:
  "firstLargest subpaths = Some t \<Longrightarrow> largestIndex subpaths = int (sd_index t)"
  using sortByArea_head [of subpaths]
  by (auto simp: largestIndex_def split: list.splits)

lemma buildSubpathData_no_hole:
  "s \<in> set (buildSubpathData rnd pathPoints matrix) \<Longrightarrow> \<not> sd_isHole s"
  by (auto simp: buildSubpathData_def subpathData_def Let_def split: if_splits)

lemma markHoleSubpaths_length:
  "length (markHoleSubpaths subpaths useEvenOdd) = length subpaths"
  by (simp add: markHoleSubpaths_def Let_def)

text \<open>
  C5.  Among the subpaths built from one path, the first subpath of largest area (no
  subpath has a larger area, every earlier one has a smaller area) is not marked a hole.
\<close>

theorem largest_subpath_never_hole:
  assumes "subpaths = buildSubpathData rnd pathPoints matrix"
      and "k < length subpaths"
      and "\<forall>j < length subpaths. sd_area (subpaths ! j) \<le> sd_area (subpaths ! k)"
      and "\<forall>j < k. sd_area (subpaths ! j) < sd_area (subpaths ! k)"
  shows "\<not> sd_isHole (markHoleSubpaths subpaths useEvenOdd ! k)"
proof -
  have start: "\<not> sd_isHole (subpaths ! k)"
    using assms(1,2) buildSubpathData_no_hole [of "subpaths ! k" rnd pathPoints matrix]
    by simp
  have "firstLargest subpaths = Some (subpaths ! k)"
    using assms(2,3,4) by (rule firstLargest_nth)
  then have "largestIndex subpaths = int (sd_index (subpaths ! k))"
    by (rule largestIndex_firstLargest)
  with assms(2) start show ?thesis
    by (simp add: markHoleSubpaths_def Let_def)
qed

text \<open>
  The small square followed by the large one: the large square, at position 1, is the
  first subpath of largest area and is not marked.
\<close>

theorem largest_subpath_never_hole_witness:
  "length (buildSubpathData binary64 [innerSquare, outerSquare] identity) = 2 \<and>
   sd_area (buildSubpathData binary64 [innerSquare, outerSquare] identity ! 0) = 4 \<and>
   sd_area (buildSubpathData binary64 [innerSquare, outerSquare] identity ! 1) = 100 \<and>
   \<not> sd_isHole
       (markHoleSubpaths (buildSubpathData binary64 [innerSquare, outerSquare] identity) False ! 1)"
proof -
  let ?subs = "buildSubpathData binary64 [innerSquare, outerSquare] identity"
  have len: "1 < length ?subs" by (simp add: sample_subpathData)
  have le: "\<forall>j < length ?subs. sd_area (?subs ! j) \<le> sd_area (?subs ! 1)"
  proof (intro allI impI)
    fix j assume "j < length ?subs"
    then have "j = 0 \<or> j = 1" by (auto simp: sample_subpathData)
    then show "sd_area (?subs ! j) \<le> sd_area (?subs ! 1)"
      by (auto simp: sample_subpathData sample_inner sample_outer [unfolded One_nat_def])
  qed
  have lt: "\<forall>j < 1. sd_area (?subs ! j) < sd_area (?subs ! 1)"
    by (simp add: sample_subpathData sample_inner sample_outer [unfolded One_nat_def])
  have "\<not> sd_isHole (markHoleSubpaths ?subs False ! 1)"
    using largest_subpath_never_hole [OF refl len le lt, of False] .
  then show ?thesis
    by (simp add: sample_subpathData sample_inner sample_outer [unfolded One_nat_def])
qed

section \<open>Path synthesis\<close>

lemma mapSubpaths_length: "length (fst (mapSubpaths cb st subs)) = length subs"
  by (induction subs arbitrary: st) (simp_all add: Let_def)

lemma mapSubpaths_nth:
  "i < length subs \<Longrightarrow>
     fst (mapSubpaths cb st subs) ! i =
     fst (cb (snd (mapSubpaths cb st (take i subs))) (subs ! i))"
proof (induction subs arbitrary: st i)
  case Nil
  then show ?case by simp
next
  case (Cons sub rest)
  show ?case
  proof (cases i)
    case 0
    then show ?thesis by (simp add: Let_def)
  next
    case (Suc j)
    with Cons.prems have "j < length rest" by simp
    from Cons.IH [OF this] Suc show ?thesis by (simp add: Let_def)
  qed
qed

lemma subpathElement_winding:
  "fst (snd (subpathElement env element context createBase style (w0, s) sub)) =
     (if cp_isClosed sub \<and> ps_hasVisibleFill style \<and> ps_fillRule style = ''nonzero''
         \<and> w0 = None
      then Some (cp_windingDirection sub) else w0)"
  by (simp add: subpathElement_def Let_def split: option.splits)

lemma firstClosedWinding_Cons:
  "firstClosedWinding (sub # rest) =
     (if cp_isClosed sub then Some (cp_windingDirection sub) else firstClosedWinding rest)"
  by (simp add: firstClosedWinding_def)

lemma mapSubpaths_winding:
  "fst (snd (mapSubpaths (subpathElement env element context createBase style) (w0, s) subs)) =
     (if ps_hasVisibleFill style \<and> ps_fillRule style = ''nonzero''
      then (case w0 of Some w \<Rightarrow> Some w | None \<Rightarrow> firstClosedWinding subs)
      else w0)"
proof (induction subs arbitrary: w0 s)
  case Nil
  show ?case by (simp add: firstClosedWinding_def split: option.splits)
next
  case (Cons sub rest)
  obtain el w1 s1 where r: "subpathElement env element context createBase style (w0, s) sub = (el, (w1, s1))"
    by (metis prod.exhaust)
  have w1: "w1 = (if cp_isClosed sub \<and> ps_hasVisibleFill style \<and> ps_fillRule style = ''nonzero''
         \<and> w0 = None
      then Some (cp_windingDirection sub) else w0)"
    using subpathElement_winding [of env element "context" createBase style w0 s sub] r by simp
  show ?case
    using Cons.IH [of w1 s1] r w1
    by (simp add: Let_def firstClosedWinding_Cons split: option.splits)
qed


lemma buildSubpathData_points:
  "d \<in> set (buildSubpathData rnd pathPoints matrix) \<Longrightarrow> 2 \<le> length (sd_relativePoints d)"
  by (auto simp: buildSubpathData_def subpathData_def Let_def transformPoints_def
           split: if_splits)

lemma markHoleSubpaths_points:
  "d \<in> set (markHoleSubpaths subpaths useEvenOdd) \<Longrightarrow>
     \<exists>d0 \<in> set subpaths. sd_relativePoints d = sd_relativePoints d0"
  by (auto simp: markHoleSubpaths_def Let_def split: if_splits)

lemma convertPathToSubpaths_points:
  assumes "sub \<in> set (convertPathToSubpaths env element matrix)"
  shows "2 \<le> length (cp_relativePoints sub)"
proof -
  from assms obtain rnd pathPoints useEvenOdd d
    where d: "d \<in> set (markHoleSubpaths (buildSubpathData rnd pathPoints matrix) useEvenOdd)"
      and sub: "sub = toConverted d"
    by (auto simp: convertPathToSubpaths_def Let_def split: if_splits sum.splits)
  from markHoleSubpaths_points [OF d] obtain d0
    where "d0 \<in> set (buildSubpathData rnd pathPoints matrix)"
      and "sd_relativePoints d = sd_relativePoints d0" by blast
  with buildSubpathData_points [of d0 rnd pathPoints matrix] sub
  show ?thesis by (simp add: toConverted_def)
qed



lemma subpathElement_closed_fill:
  assumes "cp_isClosed sub" and "ps_hasVisibleFill style"
      and "2 \<le> length (cp_relativePoints sub)"
  shows "\<exists>el. fst (subpathElement env element context createBase style (w0, s) sub) = Some el
           \<and> el_type el = Draw
           \<and> el_backgroundColor el =
               (if ps_fillRule style = ''nonzero'' then
                  (case w0 of
                     None \<Rightarrow> ps_fillColor style
                   | Some w \<Rightarrow>
                       if cp_windingDirection sub \<noteq> w \<or> cp_isHole sub
                       then ''transparent'' else ps_fillColor style)
                else if cp_isHole sub then ''transparent'' else ps_fillColor style)"
  using assms
  by (auto simp: subpathElement_def Let_def createDrawFromPoints_def split: option.splits)

lemma subpathElement_groupIds:
  assumes "fst (subpathElement env element context createBase style st sub) = Some el"
  shows "el_groupIds el = ps_sharedGroupIds style"
  using assms
  by (auto simp: subpathElement_def Let_def createDrawFromPoints_def createLineFromPoints_def
        createArrowFromPoints_def noOptions_def split: if_splits option.splits)


lemma pathEntries_entries:
  assumes "subs = convertPathToSubpaths env element (getAccumulatedTransform env element)"
      and "subs \<noteq> []"
  shows "\<exists>s0. fst (pathEntries env element context createBase s) =
           Some (fst (mapSubpaths
                   (subpathElement env element context createBase
                      (pathStyle env element context
                         (if 1 < length subs then [fst (randomId env s)] else [])))
                   (None, s0) subs))"
  using assms by (auto simp: pathEntries_def Let_def)

lemma pathConverter_of_subs:
  assumes "convertPathToSubpaths env element (getAccumulatedTransform env element) = subs"
      and "subs \<noteq> []"
  shows "fst (pathConverter env element context createBase s) =
           Many (List.map_filter (\<lambda>item. item)
                   (fst (mapSubpaths
                           (subpathElement env element context createBase
                              (pathStyle env element context
                                 (if 1 < length subs then [fst (randomId env s)] else [])))
                           (None, if 1 < length subs then snd (randomId env s) else s)
                           subs)))"
  using assms by (auto simp: pathConverter_def pathEntries_def Let_def)

lemma pathStyle_fields:
  "ps_sharedGroupIds (pathStyle env element context gids) = gids"
  "ps_fillColor (pathStyle env element context gids) = getFillColor env element (styleContext context)"
  "ps_fillRule (pathStyle env element context gids) = ownFillRule element"
  "ps_hasVisibleFill (pathStyle env element context gids) \<longleftrightarrow>
     getFillColor env element (styleContext context) \<noteq> ''transparent''"
  "ps_hasVisibleStroke (pathStyle env element context gids) \<longleftrightarrow>
     getStrokeColor env element (styleContext context) \<noteq> ''transparent'' \<and>
     getNumericPresentationValue env element (styleContext context) ''stroke-width'' 1 > 0"
  by (simp_all add: pathStyle_def Let_def)

text \<open>
  The fill of every closed subpath of a path with visible fill, from the position of the
  subpath in the path.
\<close>

lemma closed_subpath_fill_exact:
  assumes "subs = convertPathToSubpaths env element (getAccumulatedTransform env element)"
      and "getFillColor env element (styleContext context) \<noteq> ''transparent''"
      and "i < length subs"
      and "cp_isClosed (subs ! i)"
  shows "\<exists>entries el.
           fst (pathEntries env element context createBase s) = Some entries \<and>
           length entries = length subs \<and>
           entries ! i = Some el \<and>
           el_type el = Draw \<and>
           el_backgroundColor el =
             (if ownFillRule element = ''nonzero'' then
                (case firstClosedWinding (take i subs) of
                   None \<Rightarrow> getFillColor env element (styleContext context)
                 | Some w \<Rightarrow>
                     if cp_windingDirection (subs ! i) \<noteq> w \<or> cp_isHole (subs ! i)
                     then ''transparent''
                     else getFillColor env element (styleContext context))
              else if cp_isHole (subs ! i) then ''transparent''
              else getFillColor env element (styleContext context))"
proof -
  let ?style = "pathStyle env element context
                  (if 1 < length subs then [fst (randomId env s)] else [])"
  let ?cb = "subpathElement env element context createBase ?style"
  from assms(3) have ne: "subs \<noteq> []" by auto
  from pathEntries_entries [OF assms(1) ne] obtain s0
    where entries: "fst (pathEntries env element context createBase s) =
                      Some (fst (mapSubpaths ?cb (None, s0) subs))" by blast
  let ?entries = "fst (mapSubpaths ?cb (None, s0) subs)"
  obtain w1 s1 where st: "snd (mapSubpaths ?cb (None, s0) (take i subs)) = (w1, s1)"
    by (metis prod.exhaust)
  have "fst (snd (mapSubpaths ?cb (None, s0) (take i subs))) =
          (if ownFillRule element = ''nonzero'' then firstClosedWinding (take i subs) else None)"
    using assms(2) by (simp add: mapSubpaths_winding pathStyle_fields)
  with st have w1: "w1 = (if ownFillRule element = ''nonzero''
                          then firstClosedWinding (take i subs) else None)" by simp
  have nth: "?entries ! i = fst (?cb (w1, s1) (subs ! i))"
    using mapSubpaths_nth [OF assms(3), of ?cb "(None, s0)"] st by simp
  have "subs ! i \<in> set subs" using assms(3) by simp
  then have pts: "2 \<le> length (cp_relativePoints (subs ! i))"
    unfolding assms(1) by (rule convertPathToSubpaths_points)
  have vis: "ps_hasVisibleFill ?style" using assms(2) by (simp add: pathStyle_fields)
  from subpathElement_closed_fill [OF assms(4) vis pts, of env element "context" createBase w1 s1]
  obtain el where el: "fst (?cb (w1, s1) (subs ! i)) = Some el" "el_type el = Draw"
    "el_backgroundColor el =
       (if ps_fillRule ?style = ''nonzero'' then
          (case w1 of
             None \<Rightarrow> ps_fillColor ?style
           | Some w \<Rightarrow>
               if cp_windingDirection (subs ! i) \<noteq> w \<or> cp_isHole (subs ! i)
               then ''transparent'' else ps_fillColor ?style)
        else if cp_isHole (subs ! i) then ''transparent'' else ps_fillColor ?style)"
    by blast
  have bg: "el_backgroundColor el =
             (if ownFillRule element = ''nonzero'' then
                (case firstClosedWinding (take i subs) of
                   None \<Rightarrow> getFillColor env element (styleContext context)
                 | Some w \<Rightarrow>
                     if cp_windingDirection (subs ! i) \<noteq> w \<or> cp_isHole (subs ! i)
                     then ''transparent''
                     else getFillColor env element (styleContext context))
              else if cp_isHole (subs ! i) then ''transparent''
              else getFillColor env element (styleContext context))"
    using el(3) w1 by (simp add: pathStyle_fields split: option.splits)
  show ?thesis
    using entries nth el(1,2) bg mapSubpaths_length [of ?cb "(None, s0)" subs]
    by auto
qed



lemma kept_entry:
  "el \<in> set (List.map_filter (\<lambda>item. item) entries) \<Longrightarrow> Some el \<in> set entries"
  by (induction entries) (auto split: option.splits)

lemma mapSubpaths_groupIds:
  assumes "Some el \<in> set (fst (mapSubpaths
             (subpathElement env element context createBase style) st subs))"
  shows "el_groupIds el = ps_sharedGroupIds style"
proof -
  let ?cb = "subpathElement env element context createBase style"
  from assms obtain i where i: "i < length (fst (mapSubpaths ?cb st subs))"
    and el: "fst (mapSubpaths ?cb st subs) ! i = Some el"
    by (auto simp: in_set_conv_nth)
  from i have "i < length subs" by (simp add: mapSubpaths_length)
  from mapSubpaths_nth [OF this, of ?cb st] el
  have "fst (?cb (snd (mapSubpaths ?cb st (take i subs))) (subs ! i)) = Some el" by simp
  then show ?thesis by (rule subpathElement_groupIds)
qed

text \<open>
  C7.  All elements emitted for a path with two or more subpaths carry the same list of
  exactly one group id, the id drawn when the conversion of the path begins; the element
  emitted for a path with exactly one subpath has an empty list of group ids.
\<close>

theorem path_group_ids:
  assumes "subs = convertPathToSubpaths env element (getAccumulatedTransform env element)"
      and "subs \<noteq> []"
  shows "\<exists>els. fst (pathConverter env element context createBase s) = Many els \<and>
           (2 \<le> length subs \<longrightarrow> (\<forall>el \<in> set els. el_groupIds el = [fst (randomId env s)])) \<and>
           (length subs = 1 \<longrightarrow> (\<forall>el \<in> set els. el_groupIds el = []))"
proof -
  let ?gids = "if 1 < length subs then [fst (randomId env s)] else []"
  let ?style = "pathStyle env element context ?gids"
  let ?cb = "subpathElement env element context createBase ?style"
  from pathEntries_entries [OF assms] obtain s0
    where entries: "fst (pathEntries env element context createBase s) =
                      Some (fst (mapSubpaths ?cb (None, s0) subs))" by blast
  let ?entries = "fst (mapSubpaths ?cb (None, s0) subs)"
  let ?els = "List.map_filter (\<lambda>item. item) ?entries"
  have conv: "fst (pathConverter env element context createBase s) = Many ?els"
    using entries by (simp add: pathConverter_def Let_def)
  have ids: "el_groupIds el = ?gids" if "el \<in> set ?els" for el
  proof -
    from that have "Some el \<in> set ?entries" by (rule kept_entry)
    from mapSubpaths_groupIds [OF this] show ?thesis by (simp add: pathStyle_fields)
  qed
  show ?thesis using conv ids by auto
qed

section \<open>The sample paths\<close>

lemma sample_built:
  "buildSubpathData binary64 [innerSquare, outerSquare] identity =
     [\<lparr> sd_index = 0, sd_x = 4, sd_y = 4, sd_width = 2, sd_height = 2,
        sd_relativePoints = [(0, 0), (2, 0), (2, 2), (0, 2), (0, 0)],
        sd_bbox = \<lparr> minX = 4, minY = 4, maxX = 6, maxY = 6 \<rparr>, sd_area = 4,
        sd_windingDirection = CounterClockwise, sd_isHole = False \<rparr>,
      \<lparr> sd_index = 1, sd_x = 0, sd_y = 0, sd_width = 10, sd_height = 10,
        sd_relativePoints = [(0, 0), (0, 10), (10, 10), (10, 0), (0, 0)],
        sd_bbox = \<lparr> minX = 0, minY = 0, maxX = 10, maxY = 10 \<rparr>, sd_area = 100,
        sd_windingDirection = Clockwise, sd_isHole = False \<rparr>]"
  by (simp only: sample_subpathData sample_inner sample_outer)

lemma sample_marked:
  "map toConverted
     (markHoleSubpaths
        [\<lparr> sd_index = 0, sd_x = 4, sd_y = 4, sd_width = 2, sd_height = 2,
           sd_relativePoints = [(0, 0), (2, 0), (2, 2), (0, 2), (0, 0)],
           sd_bbox = \<lparr> minX = 4, minY = 4, maxX = 6, maxY = 6 \<rparr>, sd_area = 4,
           sd_windingDirection = CounterClockwise, sd_isHole = False \<rparr>,
         \<lparr> sd_index = 1, sd_x = 0, sd_y = 0, sd_width = 10, sd_height = 10,
           sd_relativePoints = [(0, 0), (0, 10), (10, 10), (10, 0), (0, 0)],
           sd_bbox = \<lparr> minX = 0, minY = 0, maxX = 10, maxY = 10 \<rparr>, sd_area = 100,
           sd_windingDirection = Clockwise, sd_isHole = False \<rparr>] useEvenOdd)
     = squareSubpaths"
  by (cases useEvenOdd) (simp_all add: markHoleSubpaths_def Let_def largestIndex_def
        sortByArea_def holeTest_def isContainedIn_def toConverted_def isClosedSubpath_code
        pointAt_def squareSubpaths_def)

lemma sample_flattened:
  "pointsOnPath sampleEnv ''M4 4H6V6H4ZM0 0V10H10V0Z'' = Inr [innerSquare, outerSquare]"
  by (simp add: sampleEnv_def samplePointsOnPath_def)

lemma sample_rounding: "fround sampleEnv = binary64"
  by (simp add: sampleEnv_def)

lemma holeFirst_d: "getAttribute holeFirstPath ''d'' = Some ''M4 4H6V6H4ZM0 0V10H10V0Z''"
  by code_simp

lemma holeFirst_transform: "getAccumulatedTransform sampleEnv holeFirstPath = identity"
  by code_simp

lemma holeFirst_subs:
  "convertPathToSubpaths sampleEnv holeFirstPath (getAccumulatedTransform sampleEnv holeFirstPath)
     = squareSubpaths"
  by (simp add: convertPathToSubpaths_def Let_def truthy_def holeFirst_d holeFirst_transform
        sample_flattened sample_rounding sample_built sample_marked
        sample_marked [unfolded One_nat_def])

lemma evenOdd_d: "getAttribute holeFirstEvenOdd ''d'' = Some ''M4 4H6V6H4ZM0 0V10H10V0Z''"
  by code_simp

lemma evenOdd_transform: "getAccumulatedTransform sampleEnv holeFirstEvenOdd = identity"
  by code_simp

lemma evenOdd_subs:
  "convertPathToSubpaths sampleEnv holeFirstEvenOdd
     (getAccumulatedTransform sampleEnv holeFirstEvenOdd) = squareSubpaths"
  by (simp add: convertPathToSubpaths_def Let_def truthy_def evenOdd_d evenOdd_transform
        sample_flattened sample_rounding sample_built sample_marked
        sample_marked [unfolded One_nat_def])


lemma squares_length: "length squareSubpaths = 2"
  by (simp add: squareSubpaths_def)

lemma squares_nonempty: "squareSubpaths \<noteq> []"
  by (simp add: squareSubpaths_def)

lemma sample_randomId: "randomId sampleEnv 0 = (''aa'', 2)"
  by code_simp

lemma summary_types: "map el_type els = map fst (map elementSummary els)"
  by (simp add: elementSummary_def comp_def)

lemma summary_colors: "map el_backgroundColor els = map (\<lambda>t. fst (snd t)) (map elementSummary els)"
  by (simp add: elementSummary_def comp_def)

lemma summary_groups: "map el_groupIds els = map (\<lambda>t. snd (snd t)) (map elementSummary els)"
  by (simp add: elementSummary_def comp_def)

lemma holeFirst_emitted:
  "map elementSummary
     (List.map_filter (\<lambda>item. item)
        (fst (mapSubpaths
                (subpathElement sampleEnv holeFirstPath (sampleContext holeFirstPath)
                   (createBaseElement sampleEnv)
                   (pathStyle sampleEnv holeFirstPath (sampleContext holeFirstPath) [''aa'']))
                (None, 2) squareSubpaths)))
     = [(Draw, ''red'', [''aa'']), (Draw, ''transparent'', [''aa''])]"
  by code_simp

lemma holeFirst_summary:
  "map elementSummary
     (pushedElements (fst (pathConverter sampleEnv holeFirstPath (sampleContext holeFirstPath)
                             (createBaseElement sampleEnv) 0)))
     = [(Draw, ''red'', [''aa'']), (Draw, ''transparent'', [''aa''])]"
  using holeFirst_emitted
  by (simp add: pathConverter_of_subs [OF holeFirst_subs squares_nonempty] squares_length
        sample_randomId pushedElements_def)

lemma evenOdd_emitted:
  "map elementSummary
     (List.map_filter (\<lambda>item. item)
        (fst (mapSubpaths
                (subpathElement sampleEnv holeFirstEvenOdd (sampleContext holeFirstEvenOdd)
                   (createBaseElement sampleEnv)
                   (pathStyle sampleEnv holeFirstEvenOdd (sampleContext holeFirstEvenOdd)
                      [''aa'']))
                (None, 2) squareSubpaths)))
     = [(Draw, ''transparent'', [''aa'']), (Draw, ''red'', [''aa''])]"
  by code_simp

lemma evenOdd_summary:
  "map elementSummary
     (pushedElements (fst (pathConverter sampleEnv holeFirstEvenOdd
                             (sampleContext holeFirstEvenOdd) (createBaseElement sampleEnv) 0)))
     = [(Draw, ''transparent'', [''aa'']), (Draw, ''red'', [''aa''])]"
  using evenOdd_emitted
  by (simp add: pathConverter_of_subs [OF evenOdd_subs squares_nonempty] squares_length
        sample_randomId pushedElements_def)

lemma holeFirst_fill:
  "getFillColor sampleEnv holeFirstPath (styleContext (sampleContext holeFirstPath)) = ''red''"
  by code_simp

lemma holeFirst_rule:
  "ownFillRule holeFirstPath = ''nonzero'' \<and> getPathFillRule holeFirstPath = ''nonzero''"
  by code_simp

lemma evenOdd_fill:
  "getFillColor sampleEnv holeFirstEvenOdd (styleContext (sampleContext holeFirstEvenOdd))
     = ''red''"
  by code_simp

lemma evenOdd_rule:
  "ownFillRule holeFirstEvenOdd = ''evenodd'' \<and> getPathFillRule holeFirstEvenOdd = ''evenodd''"
  by code_simp

lemma squares_flags:
  "map cp_isClosed squareSubpaths = [True, True] \<and>
   map cp_isHole squareSubpaths = [True, False] \<and>
   map cp_windingDirection squareSubpaths = [CounterClockwise, Clockwise]"
  by (simp add: squareSubpaths_def)

text \<open>
  C1, on \<open><path fill="red" d="M4 4H6V6H4ZM0 0V10H10V0Z"/>\<close>: a small square, then the
  large square around it, wound the other way.  The fill colour that the converter
  resolves is red, so the fill is visible, and the fill rule is \<open>nonzero\<close>; both
  subpaths are closed and the first is marked a hole.  The first is emitted
  as a FreeDraw element filled red, where a subpath marked a hole is to be transparent: the
  hole flag is read only for a subpath that comes after the first closed one.  With
  \<open>fill-rule="evenodd"\<close> on the same path the same two subpaths come out the other way
  round, the hole transparent and the large square red.
\<close>

theorem hole_first_keeps_fill:
  "ps_fillColor (pathStyle sampleEnv holeFirstPath (sampleContext holeFirstPath) [''aa''])
     = ''red'' \<and>
   ps_hasVisibleFill (pathStyle sampleEnv holeFirstPath (sampleContext holeFirstPath) [''aa'']) \<and>
   ownFillRule holeFirstPath = ''nonzero'' \<and>
   getPathFillRule holeFirstPath = ''nonzero'' \<and>
   map cp_isClosed (convertPathToSubpaths sampleEnv holeFirstPath
                      (getAccumulatedTransform sampleEnv holeFirstPath)) = [True, True] \<and>
   map cp_isHole (convertPathToSubpaths sampleEnv holeFirstPath
                    (getAccumulatedTransform sampleEnv holeFirstPath)) = [True, False] \<and>
   map el_type
     (pushedElements (fst (pathConverter sampleEnv holeFirstPath (sampleContext holeFirstPath)
                             (createBaseElement sampleEnv) 0))) = [Draw, Draw] \<and>
   map el_backgroundColor
     (pushedElements (fst (pathConverter sampleEnv holeFirstPath (sampleContext holeFirstPath)
                             (createBaseElement sampleEnv) 0))) = [''red'', ''transparent''] \<and>
   getPathFillRule holeFirstEvenOdd = ''evenodd'' \<and>
   map cp_isHole (convertPathToSubpaths sampleEnv holeFirstEvenOdd
                    (getAccumulatedTransform sampleEnv holeFirstEvenOdd)) = [True, False] \<and>
   map el_backgroundColor
     (pushedElements (fst (pathConverter sampleEnv holeFirstEvenOdd
                             (sampleContext holeFirstEvenOdd) (createBaseElement sampleEnv) 0)))
     = [''transparent'', ''red'']"
  by (simp add: holeFirst_fill pathStyle_fields holeFirst_rule evenOdd_rule holeFirst_subs
        evenOdd_subs squares_flags summary_types summary_colors holeFirst_summary
        evenOdd_summary)

lemma nth_of_map1: "map f xs = [a] \<Longrightarrow> length xs = 1 \<and> f (xs ! 0) = a"
  by (cases xs) auto







lemma stroked_closed:
  "map cp_isClosed (convertPathToSubpaths sampleEnv strokedPath
                      (getAccumulatedTransform sampleEnv strokedPath)) = [False]"
  by code_simp



lemma stroked_groupIds:
  "map el_groupIds
     (pushedElements (fst (pathConverter sampleEnv strokedPath (sampleContext strokedPath)
                             (createBaseElement sampleEnv) 0))) = [[]]"
  by code_simp

text \<open>
  The two squares are emitted as two elements with the one group id that was drawn; the
  single open segment is emitted with no group id.
\<close>

theorem path_group_ids_witness:
  "length (convertPathToSubpaths sampleEnv holeFirstPath
             (getAccumulatedTransform sampleEnv holeFirstPath)) = 2 \<and>
   fst (randomId sampleEnv 0) = ''aa'' \<and>
   map el_groupIds
     (pushedElements (fst (pathConverter sampleEnv holeFirstPath (sampleContext holeFirstPath)
                             (createBaseElement sampleEnv) 0))) = [[''aa''], [''aa'']] \<and>
   length (convertPathToSubpaths sampleEnv strokedPath
             (getAccumulatedTransform sampleEnv strokedPath)) = 1 \<and>
   map el_groupIds
     (pushedElements (fst (pathConverter sampleEnv strokedPath (sampleContext strokedPath)
                             (createBaseElement sampleEnv) 0))) = [[]]"
proof -
  let ?subsH = "convertPathToSubpaths sampleEnv holeFirstPath
                  (getAccumulatedTransform sampleEnv holeFirstPath)"
  let ?subsS = "convertPathToSubpaths sampleEnv strokedPath
                  (getAccumulatedTransform sampleEnv strokedPath)"
  have lenH: "length ?subsH = 2" by (simp only: holeFirst_subs squares_length)
  from nth_of_map1 [OF stroked_closed] have lenS: "length ?subsS = 1" by simp
  from lenH have neH: "?subsH \<noteq> []" by auto
  from lenS have neS: "?subsS \<noteq> []" by auto
  note path_group_ids [OF refl neH, of "sampleContext holeFirstPath" "createBaseElement sampleEnv" 0]
    path_group_ids [OF refl neS, of "sampleContext strokedPath" "createBaseElement sampleEnv" 0]
  then show ?thesis
    using lenH lenS holeFirst_summary stroked_groupIds
    by (simp add: summary_groups sample_randomId)
qed


section \<open>Shapes\<close>

text \<open>
  C8.  A \<open>rect\<close> whose width or height, a \<open>circle\<close> whose radius, an \<open>ellipse\<close> one of
  whose radii is zero or negative yields \<open>null\<close>, and no random number is drawn.
\<close>

theorem nonpositive_dimension_no_element:
  "(getNumericAttribute env element ''width'' 0 \<le> 0 \<or>
    getNumericAttribute env element ''height'' 0 \<le> 0 \<longrightarrow>
      rectConverter env element context createBase s = (Null, s)) \<and>
   (getNumericAttribute env element ''r'' 0 \<le> 0 \<longrightarrow>
      circleConverter env element context createBase s = (Null, s)) \<and>
   (getNumericAttribute env element ''rx'' 0 \<le> 0 \<or>
    getNumericAttribute env element ''ry'' 0 \<le> 0 \<longrightarrow>
      ellipseConverter env element context createBase s = (Null, s))"
  by (simp add: rectConverter_def circleConverter_def ellipseConverter_def Let_def)

lemma flatRect_width: "getNumericAttribute sampleEnv flatRect ''width'' 0 = 0"
  by code_simp

lemma negativeCircle_radius: "getNumericAttribute sampleEnv negativeCircle ''r'' 0 = - 1"
  by code_simp

lemma flatEllipse_radius: "getNumericAttribute sampleEnv flatEllipse ''ry'' 0 = 0"
  by code_simp

theorem nonpositive_dimension_no_element_witness:
  "getNumericAttribute sampleEnv flatRect ''width'' 0 = 0 \<and>
   rectConverter sampleEnv flatRect (sampleContext flatRect) (createBaseElement sampleEnv) 0
     = (Null, 0) \<and>
   getNumericAttribute sampleEnv negativeCircle ''r'' 0 = - 1 \<and>
   circleConverter sampleEnv negativeCircle (sampleContext negativeCircle)
     (createBaseElement sampleEnv) 0 = (Null, 0) \<and>
   getNumericAttribute sampleEnv flatEllipse ''ry'' 0 = 0 \<and>
   ellipseConverter sampleEnv flatEllipse (sampleContext flatEllipse)
     (createBaseElement sampleEnv) 0 = (Null, 0)"
  using nonpositive_dimension_no_element [of sampleEnv flatRect "sampleContext flatRect"
          "createBaseElement sampleEnv" 0]
        nonpositive_dimension_no_element [of sampleEnv negativeCircle
          "sampleContext negativeCircle" "createBaseElement sampleEnv" 0]
        nonpositive_dimension_no_element [of sampleEnv flatEllipse "sampleContext flatEllipse"
          "createBaseElement sampleEnv" 0]
  by (simp add: flatRect_width negativeCircle_radius flatEllipse_radius)

section \<open>Recovery from malformed declarations\<close>

text \<open>
  C9 (as amended).  A transform declaration that is absent or empty, or on which the
  transform parser throws, gives the identity matrix.  A command string that is absent or
  empty, or on which the path flattener throws, gives no subpath; the path converter then
  returns \<open>null\<close> without drawing a random number, and the path adds no element to the
  document.  The exception ends in the \<open>catch\<close> clause of \<open>getTransformMatrix\<close> or of
  \<open>convertPathToSubpaths\<close>: each returns its value.
\<close>

theorem malformed_input_recovered:
  "(\<not> truthy (getAttribute element ''transform'') \<longrightarrow>
      getTransformMatrix env element = identity) \<and>
   (getAttribute element ''transform'' = Some t \<and> fromTransformAttribute env t = Inl err \<longrightarrow>
      tryTransformMatrix env t = Inl err \<and>
      getTransformMatrix env element = identity) \<and>
   (\<not> truthy (getAttribute element ''d'') \<or>
    (getAttribute element ''d'' = Some d \<and> pointsOnPath env d = Inl err') \<longrightarrow>
      convertPathToSubpaths env element matrix = [] \<and>
      pathConverter env element context createBase s = (Null, s) \<and>
      (toLowerCase (tagName element) = ''path'' \<longrightarrow>
         convertNode env context element s = ([], s)))"
proof -
  have lower: "svgConverters ''path'' = Some pathConverter"
    by (simp add: svgConverters_def)
  have none: "convertPathToSubpaths env element m = []"
    if "\<not> truthy (getAttribute element ''d'') \<or>
        (getAttribute element ''d'' = Some d \<and> pointsOnPath env d = Inl err')" for m
    using that by (auto simp: convertPathToSubpaths_def Let_def truthy_def)
  have conv: "pathConverter env element context createBase s = (Null, s)"
    if "\<not> truthy (getAttribute element ''d'') \<or>
        (getAttribute element ''d'' = Some d \<and> pointsOnPath env d = Inl err')" for createBase
    using none [OF that] by (simp add: pathConverter_def pathEntries_def Let_def)
  have node: "convertNode env context element s = ([], s)"
    if "\<not> truthy (getAttribute element ''d'') \<or>
        (getAttribute element ''d'' = Some d \<and> pointsOnPath env d = Inl err')"
      and "toLowerCase (tagName element) = ''path''"
    using conv [OF that(1)] that(2) lower
    by (simp add: convertNode_def Let_def pushedElements_def)
  have transform:
    "(\<not> truthy (getAttribute element ''transform'') \<longrightarrow>
        getTransformMatrix env element = identity) \<and>
     (getAttribute element ''transform'' = Some t \<and> fromTransformAttribute env t = Inl err \<longrightarrow>
        tryTransformMatrix env t = Inl err \<and> getTransformMatrix env element = identity)"
    by (simp add: getTransformMatrix_def tryTransformMatrix_def Let_def truthy_def)
  from transform none conv node show ?thesis by blast
qed

lemma brokenPath_transform: "getAttribute brokenPath ''transform'' = Some ''rotate(''"
  by code_simp

lemma brokenPath_d: "getAttribute brokenPath ''d'' = Some ''M''"
  by code_simp

lemma brokenPath_tag: "toLowerCase (tagName brokenPath) = ''path''"
  by code_simp

lemma sample_transform_throws:
  "fromTransformAttribute sampleEnv ''rotate('' = Inl (Error ''SyntaxError'')"
  by (simp add: sampleEnv_def)

lemma sample_path_throws: "pointsOnPath sampleEnv ''M'' = Inl (Error ''Path data ended short'')"
  by (simp add: sampleEnv_def samplePointsOnPath_def)

text \<open>
  A path whose transform declaration and whose command string both make the library
  throw: the matrix is the identity and the path adds nothing.
\<close>

theorem malformed_input_recovered_witness:
  "getAttribute brokenPath ''transform'' = Some ''rotate('' \<and>
   fromTransformAttribute sampleEnv ''rotate('' = Inl (Error ''SyntaxError'') \<and>
   getTransformMatrix sampleEnv brokenPath = identity \<and>
   getAttribute brokenPath ''d'' = Some ''M'' \<and>
   pointsOnPath sampleEnv ''M'' = Inl (Error ''Path data ended short'') \<and>
   convertPathToSubpaths sampleEnv brokenPath identity = [] \<and>
   pathConverter sampleEnv brokenPath (sampleContext brokenPath) (createBaseElement sampleEnv) 0
     = (Null, 0) \<and>
   convertNode sampleEnv (sampleContext brokenPath) brokenPath 0 = ([], 0)"
  using malformed_input_recovered [of brokenPath sampleEnv "''rotate(''" "Error ''SyntaxError''"
          "''M''" "Error ''Path data ended short''" identity "sampleContext brokenPath"
          "createBaseElement sampleEnv" 0]
  by (simp add: brokenPath_transform brokenPath_d brokenPath_tag sample_transform_throws
        sample_path_throws)

lemma moveless_d: "getAttribute movelessPath ''d'' = Some ''L10 10''"
  by code_simp

lemma moveless_flattened: "pointsOnPath sampleEnv ''L10 10'' = Inr [[(0, 0), (10, 10)]]"
  by (simp add: sampleEnv_def samplePointsOnPath_def)

lemma moveless_subs:
  "map cp_relativePoints
     (convertPathToSubpaths sampleEnv movelessPath
        (getAccumulatedTransform sampleEnv movelessPath)) = [[(0, 0), (10, 10)]]"
  by code_simp

lemma moveless_types:
  "map el_type
     (pushedElements (fst (pathConverter sampleEnv movelessPath (sampleContext movelessPath)
                             (createBaseElement sampleEnv) 0))) = [Line]"
  by code_simp

text \<open>
  C9 as stated fails on \<open><path stroke="red" d="L10 10"/>\<close>.  The command string is
  malformed, since it does not begin with a moveto, but the flattener does not throw on
  it: the path has one subpath and is converted to a Line.
\<close>

theorem moveless_path_counterexample:
  "getAttribute movelessPath ''d'' = Some ''L10 10'' \<and>
   pointsOnPath sampleEnv ''L10 10'' = Inr [[(0, 0), (10, 10)]] \<and>
   map cp_relativePoints
     (convertPathToSubpaths sampleEnv movelessPath
        (getAccumulatedTransform sampleEnv movelessPath)) = [[(0, 0), (10, 10)]] \<and>
   map el_type
     (pushedElements (fst (pathConverter sampleEnv movelessPath (sampleContext movelessPath)
                             (createBaseElement sampleEnv) 0))) = [Line]"
  using moveless_d moveless_flattened moveless_subs moveless_types by (intro conjI)

section \<open>The ancestor cascade\<close>

lemma cascade_own:
  "getInlineStyleValue rectInGroup ''fill'' = None \<and>
   getAttribute rectInGroup ''fill'' = None \<and>
   getClassStyleValue rectInGroup (styleContext (sampleContext rectInGroup)) ''fill'' = None"
  by code_simp

lemma cascade_parent:
  "parentElement rectInGroup = Some styledGroup \<and>
   getInlineStyleValue styledGroup ''fill'' = Some ''blue'' \<and>
   getAttribute styledGroup ''fill'' = Some ''red''"
  by code_simp

lemma cascade_result:
  "getPresentationValue rectInGroup (styleContext (sampleContext rectInGroup)) ''fill''
     = Some ''red''"
  by code_simp

text \<open>
  C4, on \<open><g fill="red" style="fill: blue"><rect/></g>\<close>.  The \<open>rect\<close> has no inline style,
  attribute or class value for \<open>fill\<close>; its parent has the inline style value \<open>blue\<close> and the
  attribute \<open>red\<close>.  The cascade returns \<open>red\<close>: on an ancestor the attribute is read
  before the inline style.
\<close>

theorem ancestor_attribute_read_before_style:
  "getInlineStyleValue rectInGroup ''fill'' = None \<and>
   getAttribute rectInGroup ''fill'' = None \<and>
   getClassStyleValue rectInGroup (styleContext (sampleContext rectInGroup)) ''fill'' = None \<and>
   parentElement rectInGroup = Some styledGroup \<and>
   getInlineStyleValue styledGroup ''fill'' = Some ''blue'' \<and>
   getAttribute styledGroup ''fill'' = Some ''red'' \<and>
   getPresentationValue rectInGroup (styleContext (sampleContext rectInGroup)) ''fill''
     = Some ''red''"
  using cascade_own cascade_parent cascade_result by simp

section \<open>The orchestrator\<close>

lemma lower_defs: "toLowerCase ''defs'' = ''defs''"
  by code_simp

lemma nonRenderedLoop_ancestor:
  assumes "a \<in> set (selfAndAncestors element)"
      and "toLowerCase (tagName a) \<in> set NON_RENDERED_CONTAINER_TAGS"
  shows "nonRenderedLoop (Some element)"
  using assms
proof (induction element rule: selfAndAncestors.induct)
  case (1 t atts cs)
  then show ?case by auto
next
  case (2 t atts cs parent)
  then show ?case by auto
qed

text \<open>
  The half of C2 that the code keeps: an element with \<open>defs\<close> among its ancestors is not
  among the nodes that are converted.
\<close>

lemma inside_defs_not_selected:
  assumes "a \<in> set (selfAndAncestors element)" and "tagName a = ''defs''"
  shows "element \<notin> set (selectedNodes env rootEl)"
proof -
  from assms(2) have "toLowerCase (tagName a) \<in> set NON_RENDERED_CONTAINER_TAGS"
    by (simp add: lower_defs NON_RENDERED_CONTAINER_TAGS_def)
  with assms(1) have "hasNonRenderedAncestor element"
    unfolding hasNonRenderedAncestor_def by (rule nonRenderedLoop_ancestor)
  then show ?thesis by (simp add: selectedNodes_def shouldConvertNode_def)
qed

lemma clip_query: "querySelectorAll clipTree SUPPORTED_TAGS = [clipRect]"
  by code_simp

lemma clip_parent: "map tagName (selfAndAncestors clipRect) = [''rect'', ''clipPath'', ''svg'']"
  by code_simp

lemma clip_ancestor: "hasNonRenderedAncestor clipRect = False"
  by code_simp

lemma clip_selected: "selectedNodes sampleEnv clipTree = [clipRect]"
  by code_simp

lemma clip_types: "map el_type (doc_elements (convertRoot sampleEnv clipTree 0)) = [Rectangle]"
  by code_simp

lemma clip_widths: "map el_width (doc_elements (convertRoot sampleEnv clipTree 0)) = [10]"
  by code_simp

text \<open>
  C2, on \<open><svg><clipPath><rect width="10" height="10"/></clipPath></svg>\<close>.  The tag of the
  ancestor is lower-cased to \<open>clippath\<close> before it is looked up in a table that holds
  \<open>clipPath\<close>, so the \<open>rect\<close> passes the filter and the document holds a Rectangle made
  from it.
\<close>

theorem clipPath_child_converted:
  "map tagName (selfAndAncestors clipRect) = [''rect'', ''clipPath'', ''svg''] \<and>
   querySelectorAll clipTree SUPPORTED_TAGS = [clipRect] \<and>
   hasNonRenderedAncestor clipRect = False \<and>
   selectedNodes sampleEnv clipTree = [clipRect] \<and>
   map el_type (doc_elements (convertRoot sampleEnv clipTree 0)) = [Rectangle] \<and>
   map el_width (doc_elements (convertRoot sampleEnv clipTree 0)) = [10]"
  using clip_parent clip_query clip_ancestor clip_selected clip_types clip_widths by simp

section \<open>Rotation angle\<close>

lemma createBaseElement_angle: "el_angle (fst (createBaseElement env s)) = 0"
  by (simp add: createBaseElement_def Let_def)

lemma createLine_angle:
  assumes "\<And>s'. el_angle (fst (createBase s')) = 0"
      and "fst (createLineFromPoints env points element context createBase options s) = Some el"
  shows "el_angle el = 0"
  using assms by (auto simp: createLineFromPoints_def Let_def split: if_splits)

lemma createArrow_angle:
  assumes "\<And>s'. el_angle (fst (createBase s')) = 0"
      and "fst (createArrowFromPoints env points element context createBase options s) = Some el"
  shows "el_angle el = 0"
  using assms by (auto simp: createArrowFromPoints_def Let_def split: if_splits)

lemma createDraw_angle:
  assumes "\<And>s'. el_angle (fst (createBase s')) = 0"
      and "fst (createDrawFromPoints env points element context createBase options s) = Some el"
  shows "el_angle el = 0"
  using assms by (auto simp: createDrawFromPoints_def Let_def split: if_splits)

lemma subpathElement_angle:
  assumes base: "\<And>s'. el_angle (fst (createBase s')) = 0"
      and el: "fst (subpathElement env element context createBase style st sub) = Some el"
  shows "el_angle el = 0"
proof (cases "cp_isClosed sub")
  case False
  with el show ?thesis
    by (auto simp: subpathElement_def Let_def split: if_splits
             dest: createLine_angle [OF base] createArrow_angle [OF base])
next
  case closed: True
  show ?thesis
  proof (cases "ps_hasVisibleFill style")
    case False
    with closed el show ?thesis
      by (auto simp: subpathElement_def Let_def split: if_splits
               dest: createLine_angle [OF base])
  next
    case True
    with closed el show ?thesis
      by (auto simp: subpathElement_def Let_def split: if_splits option.splits
               dest: createDraw_angle [OF base])
  qed
qed

lemma asConversion_pushed:
  "el \<in> set (pushedElements (fst (asConversion r))) \<Longrightarrow> fst r = Some el"
  by (auto simp: asConversion_def pushedElements_def split: option.splits)

lemma pushed_Null: "pushedElements Null = []"
  by (simp add: pushedElements_def)

lemma rect_angle:
  assumes "\<And>s'. el_angle (fst (createBase s')) = 0"
      and "el \<in> set (pushedElements (fst (rectConverter env element context createBase s)))"
  shows "el_angle el = 0"
  using assms by (auto simp: rectConverter_def Let_def pushedElements_def split: if_splits)

lemma circle_angle:
  assumes "\<And>s'. el_angle (fst (createBase s')) = 0"
      and "el \<in> set (pushedElements (fst (circleConverter env element context createBase s)))"
  shows "el_angle el = 0"
  using assms by (auto simp: circleConverter_def Let_def pushedElements_def split: if_splits)

lemma ellipse_angle:
  assumes "\<And>s'. el_angle (fst (createBase s')) = 0"
      and "el \<in> set (pushedElements (fst (ellipseConverter env element context createBase s)))"
  shows "el_angle el = 0"
  using assms by (auto simp: ellipseConverter_def Let_def pushedElements_def split: if_splits)

lemma text_angle:
  assumes "\<And>s'. el_angle (fst (createBase s')) = 0"
      and "el \<in> set (pushedElements (fst (textConverter env element context createBase s)))"
  shows "el_angle el = 0"
  using assms by (auto simp: textConverter_def Let_def pushedElements_def split: if_splits)

lemma polygon_angle:
  assumes base: "\<And>s'. el_angle (fst (createBase s')) = 0"
      and el: "el \<in> set (pushedElements (fst (polygonConverter env element context createBase s)))"
  shows "el_angle el = 0"
  using el
  by (auto simp: polygonConverter_def Let_def pushed_Null split: if_splits
           dest!: asConversion_pushed dest: createLine_angle [OF base])

lemma polyline_angle:
  assumes base: "\<And>s'. el_angle (fst (createBase s')) = 0"
      and el: "el \<in> set (pushedElements (fst (polylineConverter env element context createBase s)))"
  shows "el_angle el = 0"
  using el
  by (auto simp: polylineConverter_def Let_def pushed_Null split: if_splits
           dest!: asConversion_pushed
           dest: createLine_angle [OF base] createArrow_angle [OF base])

lemma line_angle:
  assumes base: "\<And>s'. el_angle (fst (createBase s')) = 0"
      and el: "el \<in> set (pushedElements (fst (lineConverter env element context createBase s)))"
  shows "el_angle el = 0"
  using el
  by (auto simp: lineConverter_def Let_def split: if_splits
           dest!: asConversion_pushed
           dest: createLine_angle [OF base] createArrow_angle [OF base])


lemma mapSubpaths_angle:
  assumes base: "\<And>s'. el_angle (fst (createBase s')) = 0"
      and el: "Some el \<in> set (fst (mapSubpaths
                 (subpathElement env element context createBase style) st subs))"
  shows "el_angle el = 0"
proof -
  let ?cb = "subpathElement env element context createBase style"
  from el obtain i where i: "i < length (fst (mapSubpaths ?cb st subs))"
    and nth: "fst (mapSubpaths ?cb st subs) ! i = Some el"
    by (auto simp: in_set_conv_nth)
  from i have "i < length subs" by (simp add: mapSubpaths_length)
  from mapSubpaths_nth [OF this, of ?cb st] nth
  have "fst (?cb (snd (mapSubpaths ?cb st (take i subs))) (subs ! i)) = Some el" by simp
  with base show ?thesis by (rule subpathElement_angle)
qed

lemma path_angle:
  assumes base: "\<And>s'. el_angle (fst (createBase s')) = 0"
      and el: "el \<in> set (pushedElements (fst (pathConverter env element context createBase s)))"
  shows "el_angle el = 0"
proof (cases "fst (pathEntries env element context createBase s)")
  case None
  with el show ?thesis by (simp add: pathConverter_def Let_def pushedElements_def)
next
  case (Some entries)
  with el have "el \<in> set (List.map_filter (\<lambda>item. item) entries)"
    by (simp add: pathConverter_def Let_def pushedElements_def)
  then have mem: "Some el \<in> set entries" by (rule kept_entry)
  from Some obtain style st subs where
    "entries = fst (mapSubpaths (subpathElement env element context createBase style) st subs)"
    by (auto simp: pathEntries_def Let_def split: if_splits)
  with mem base show ?thesis using mapSubpaths_angle by blast
qed

lemma converter_angle:
  assumes "svgConverters tag = Some converter"
      and "el \<in> set (pushedElements (fst (converter env element context
                                             (createBaseElement env) s)))"
  shows "el_angle el = 0"
proof -
  have base: "\<And>s'. el_angle (fst (createBaseElement env s')) = 0"
    by (rule createBaseElement_angle)
  from assms(1) consider
      "converter = rectConverter" | "converter = circleConverter"
    | "converter = ellipseConverter" | "converter = lineConverter"
    | "converter = polygonConverter" | "converter = polylineConverter"
    | "converter = pathConverter" | "converter = textConverter"
    by (auto simp: svgConverters_def split: if_splits)
  then show ?thesis
  proof cases
    case 1 with assms(2) base show ?thesis using rect_angle by blast
  next
    case 2 with assms(2) base show ?thesis using circle_angle by blast
  next
    case 3 with assms(2) base show ?thesis using ellipse_angle by blast
  next
    case 4 with assms(2) base show ?thesis using line_angle by blast
  next
    case 5 with assms(2) base show ?thesis using polygon_angle by blast
  next
    case 6 with assms(2) base show ?thesis using polyline_angle by blast
  next
    case 7 with assms(2) base show ?thesis using path_angle by blast
  next
    case 8 with assms(2) base show ?thesis using text_angle by blast
  qed
qed

lemma convertNode_angle:
  "el \<in> set (fst (convertNode env context node s)) \<Longrightarrow> el_angle el = 0"
  by (auto simp: convertNode_def Let_def split: option.splits dest: converter_angle)

lemma convertNodes_angle:
  "el \<in> set (fst (convertNodes env context nodes s)) \<Longrightarrow> el_angle el = 0"
proof (induction nodes arbitrary: s)
  case Nil
  then show ?case by simp
next
  case (Cons node rest)
  then show ?case by (auto simp: Let_def dest: convertNode_angle)
qed

text \<open>
  C10.  Every element of the document has rotation angle 0: the base element is created
  with angle 0 and no converter writes the field.
\<close>

theorem output_angle_zero:
  "\<forall>el \<in> set (doc_elements (convertRoot env rootEl s)). el_angle el = 0"
  by (auto simp: convertRoot_def Let_def dest: convertNodes_angle)

text \<open>The document made from \<open>clipTree\<close> holds one Rectangle, and its angle is 0.\<close>

theorem output_angle_zero_witness:
  "map el_type (doc_elements (convertRoot sampleEnv clipTree 0)) = [Rectangle] \<and>
   map el_angle (doc_elements (convertRoot sampleEnv clipTree 0)) = [0]"
proof -
  from clip_types obtain el where one: "doc_elements (convertRoot sampleEnv clipTree 0) = [el]"
    by auto
  with output_angle_zero [of sampleEnv clipTree 0] clip_types show ?thesis by simp
qed


end
